theory Spec2Isabelle
  imports Complex_Main "HOL-Library.Word" "HOL-Library.AList"
begin

section \<open>The HTTP surface (server/api/server.go)\<close>

subsection \<open>Requests and responses\<close>

text \<open>
  A request carries what the handlers read: the method, the URL path, the
  \<open>Authorization\<close> header (absent or a value) and the body. The JSON body of
  \<open>/api/track\<close> is kept as the parsed object, each member absent or present;
  \<open>None\<close> is a body that does not decode.
\<close>

record json_track =
  j_address :: "string option"
  j_required_confirmations :: "int option"

record request =
  Method :: string
  Path :: string
  Authorization :: "string option"
  Body :: "json_track option"

text \<open>\<open>r.Header.Get\<close> gives the empty string for a header that is not there.\<close>

definition Header_Get :: "string option \<Rightarrow> string" where
  "Header_Get h = (case h of None \<Rightarrow> [] | Some v \<Rightarrow> v)"

text \<open>
  \<open>strings.Split s " "\<close>: the pieces of \<open>s\<close> between the occurrences of the
  separator; the empty string gives one empty piece.
\<close>

fun Split :: "string \<Rightarrow> char \<Rightarrow> string list" where
  "Split [] c = [[]]"
| "Split (x # xs) c =
     (if x = c then [] # Split xs c
      else (case Split xs c of [] \<Rightarrow> [[x]] | p # ps \<Rightarrow> (x # p) # ps))"

datatype 'a reply = Error string | Json 'a

record 'a response =
  StatusCode :: nat
  Reply :: "'a reply"

definition http_Error :: "string \<Rightarrow> nat \<Rightarrow> 'a response" where
  "http_Error msg code = \<lparr>StatusCode = code, Reply = Error msg\<rparr>"

definition StatusUnauthorized :: nat where "StatusUnauthorized = 401"
definition StatusMethodNotAllowed :: nat where "StatusMethodNotAllowed = 405"
definition StatusBadRequest :: nat where "StatusBadRequest = 400"
definition StatusInternalServerError :: nat where "StatusInternalServerError = 500"
definition StatusOK :: nat where "StatusOK = 200"

subsection \<open>authMiddleware\<close>

text \<open>
  A handler reads the request and the state it works on and gives the response and
  the new state. A handler that is not called leaves the state as it is.
\<close>

type_synonym ('s, 'a) handler = "request \<Rightarrow> 's \<Rightarrow> 'a response \<times> 's"

definition authMiddleware :: "string \<Rightarrow> ('s, 'a) handler \<Rightarrow> ('s, 'a) handler" where
  "authMiddleware apiToken next r s =
     (let authHeader = Header_Get (Authorization r) in
      if authHeader = [] then
        (http_Error ''Authorization header required'' StatusUnauthorized, s)
      else
        (let parts = Split authHeader CHR '' '' in
         if length parts \<noteq> 2 \<or> parts ! 0 \<noteq> ''Bearer'' \<or> parts ! 1 \<noteq> apiToken then
           (http_Error ''Invalid authorization token'' StatusUnauthorized, s)
         else next r s))"

section \<open>The Store (package db)\<close>

text \<open>
  The four tables are lists of rows in insertion order. Amounts are DOGE, the
  \<open>float64\<close> of the source read as a real number; \<open>created_at\<close> and
  \<open>updated_at\<close> are wall-clock stamps and are left out: the order of insertion is
  the order by \<open>created_at\<close>. The \<open>SERIAL\<close> keys are drawn from one counter
  per table. The database is
  taken to answer every statement, so the branches of the source that only log a
  database error and go on are not reached.
\<close>

record TrackedAddress =
  a_ID :: int
  a_Address :: string
  a_RequiredConfirmations :: int
  a_Balance :: real

text \<open>
  Modelled from the spec: the declaration of \<open>db.Transaction\<close> and of the table
  \<open>transactions\<close> (\<open>InitDB\<close>) is not among the sources. Following the data model,
  \<open>block_hash\<close> and \<open>block_height\<close> are nullable, and a struct literal that does
  not set them stores NULL; the SQL of the indexer tests \<open>block_height IS NOT NULL\<close>
  accordingly. The other fields have Go's zero values when they are not set.
\<close>

record Transaction =
  t_ID :: int
  t_AddressID :: int
  t_TxID :: string
  t_BlockHash :: "string option"
  t_BlockHeight :: "int option"
  t_Amount :: real
  t_Fee :: real
  t_Timestamp :: int
  t_IsIncoming :: bool
  t_Confirmations :: int
  t_Status :: string
  t_SenderAddress :: string
  t_ReceiverAddress :: string

record UnspentOutput =
  u_ID :: int
  u_AddressID :: int
  u_TxID :: string
  u_Vout :: int
  u_Amount :: real
  u_Script :: string

record store =
  tracked_addresses :: "TrackedAddress list"
  transactions :: "Transaction list"
  unspent_outputs :: "UnspentOutput list"
  block_tracker :: "(int \<times> string) option"
  next_address_id :: int
  next_transaction_id :: int
  next_unspent_id :: int

text \<open>
  Modelled from the spec: the column defaults of the missing table declarations.
  A row of \<open>transactions\<close> written without a status is \<open>pending\<close> (the data
  model: no block, so pending); a tracked address written without a threshold has
  \<open>required_confirmations = 1\<close>, the least value the data model allows.
\<close>

definition default_status :: string where
  "default_status = ''pending''"

definition default_required_confirmations :: int where
  "default_required_confirmations = 1"

definition GetOrCreateAddress :: "store \<Rightarrow> string \<Rightarrow> TrackedAddress \<times> store" where
  "GetOrCreateAddress db address =
     (case find (\<lambda>a. a_Address a = address) (tracked_addresses db) of
        Some addr \<Rightarrow> (addr, db)
      | None \<Rightarrow>
          (let addr = \<lparr>a_ID = next_address_id db, a_Address = address,
                       a_RequiredConfirmations = default_required_confirmations,
                       a_Balance = 0\<rparr>
           in (addr, db\<lparr>tracked_addresses := tracked_addresses db @ [addr],
                        next_address_id := next_address_id db + 1\<rparr>)))"

text \<open>
  \<open>GetAddressDetails\<close> scans nine columns of each transaction row; the fields of
  the struct it does not scan keep their zero values. Newest rows come first
  (\<open>ORDER BY created_at DESC\<close>).
\<close>

definition scan_transaction :: "Transaction \<Rightarrow> Transaction" where
  "scan_transaction t =
     t\<lparr>t_Fee := 0, t_Timestamp := 0, t_Status := [], t_SenderAddress := [],
       t_ReceiverAddress := []\<rparr>"

definition GetAddressDetails ::
  "store \<Rightarrow> string \<Rightarrow> (TrackedAddress \<times> Transaction list \<times> UnspentOutput list) \<times> store" where
  "GetAddressDetails db address =
     (let (addr, db') = GetOrCreateAddress db address;
          txs = rev (map scan_transaction
                  (filter (\<lambda>t. t_AddressID t = a_ID addr) (transactions db')));
          unspentOutputs = filter (\<lambda>u. u_AddressID u = a_ID addr) (unspent_outputs db')
      in ((addr, txs, unspentOutputs), db'))"

definition UpdateAddressBalance :: "store \<Rightarrow> int \<Rightarrow> real \<Rightarrow> store" where
  "UpdateAddressBalance db addressID balance =
     db\<lparr>tracked_addresses :=
          map (\<lambda>a. if a_ID a = addressID then a\<lparr>a_Balance := balance\<rparr> else a)
            (tracked_addresses db)\<rparr>"

text \<open>
  \<open>AddTransaction\<close> writes seven columns (address, transaction id, block hash and
  height, amount, direction, confirmations); on a row with the same
  \<open>(address_id, tx_id)\<close> it overwrites block hash, block height and confirmations
  only. The status, fee, timestamp and the two addresses of its argument are not
  written.
\<close>

definition AddTransaction :: "store \<Rightarrow> Transaction \<Rightarrow> store" where
  "AddTransaction db tx =
     (if list_ex (\<lambda>t. t_AddressID t = t_AddressID tx \<and> t_TxID t = t_TxID tx) (transactions db)
      then db\<lparr>transactions :=
             map (\<lambda>t. if t_AddressID t = t_AddressID tx \<and> t_TxID t = t_TxID tx
                       then t\<lparr>t_BlockHash := t_BlockHash tx, t_BlockHeight := t_BlockHeight tx,
                              t_Confirmations := t_Confirmations tx\<rparr>
                       else t)
               (transactions db)\<rparr>
      else db\<lparr>transactions := transactions db @
               [\<lparr>t_ID = next_transaction_id db, t_AddressID = t_AddressID tx, t_TxID = t_TxID tx,
                 t_BlockHash = t_BlockHash tx, t_BlockHeight = t_BlockHeight tx,
                 t_Amount = t_Amount tx, t_Fee = 0, t_Timestamp = 0,
                 t_IsIncoming = t_IsIncoming tx, t_Confirmations = t_Confirmations tx,
                 t_Status = default_status, t_SenderAddress = [], t_ReceiverAddress = []\<rparr>],
              next_transaction_id := next_transaction_id db + 1\<rparr>)"

definition AddUnspentOutput :: "store \<Rightarrow> UnspentOutput \<Rightarrow> store" where
  "AddUnspentOutput db output =
     (if list_ex (\<lambda>u. u_AddressID u = u_AddressID output \<and> u_TxID u = u_TxID output
                       \<and> u_Vout u = u_Vout output) (unspent_outputs db)
      then db\<lparr>unspent_outputs :=
             map (\<lambda>u. if u_AddressID u = u_AddressID output \<and> u_TxID u = u_TxID output
                          \<and> u_Vout u = u_Vout output
                       then u\<lparr>u_Amount := u_Amount output, u_Script := u_Script output\<rparr>
                       else u)
               (unspent_outputs db)\<rparr>
      else db\<lparr>unspent_outputs := unspent_outputs db @ [output\<lparr>u_ID := next_unspent_id db\<rparr>],
              next_unspent_id := next_unspent_id db + 1\<rparr>)"

definition RemoveUnspentOutput :: "store \<Rightarrow> int \<Rightarrow> string \<Rightarrow> int \<Rightarrow> store" where
  "RemoveUnspentOutput db addressID txID vout =
     db\<lparr>unspent_outputs :=
          filter (\<lambda>u. \<not> (u_AddressID u = addressID \<and> u_TxID u = txID \<and> u_Vout u = vout))
            (unspent_outputs db)\<rparr>"

definition GetLastProcessedBlock :: "store \<Rightarrow> int \<times> string" where
  "GetLastProcessedBlock db = (case block_tracker db of None \<Rightarrow> (0, []) | Some c \<Rightarrow> c)"

definition UpdateLastProcessedBlock :: "store \<Rightarrow> int \<Rightarrow> string \<Rightarrow> store" where
  "UpdateLastProcessedBlock db height hash = db\<lparr>block_tracker := Some (height, hash)\<rparr>"

section \<open>The chain source and the decoded transactions\<close>

text \<open>
  Blocks and transactions arrive decoded by the \<open>doge\<close> library: a transaction has
  its id in hex, its inputs (the id of the spent transaction in bytes, empty for a
  coinbase, and the index of the spent output) and its outputs (value in satoshi,
  script).
\<close>

type_synonym byte = "8 word"

record BlockTxIn =
  in_TxID :: "byte list"
  in_VOut :: nat

record BlockTxOut =
  out_Value :: int
  out_Script :: "byte list"

record BlockTx =
  tx_TxID :: string
  tx_VIn :: "BlockTxIn list"
  tx_VOut :: "BlockTxOut list"

record ChainBlock =
  Hash :: string
  Height :: int
  Tx :: "BlockTx list"

record UndoForkBlocks =
  LastValidHeight :: int
  ResumeFromBlock :: string
  BlockHashes :: "string list"

text \<open>
  The node behind \<open>spec.Blockchain\<close> and the functions of the \<open>doge\<close> library
  are outside the repository and are parameters of the model. A call of the node
  that fails gives \<open>None\<close>. \<open>GetRawTransaction\<close> gives the \<open>hex\<close> member of
  the reply, \<open>GetBlockHeader\<close> the \<open>Time\<close> of the header, and
  \<open>GetMempoolTransaction\<close> the \<open>time\<close> member, \<open>None\<close> inside when it is not
  a number.
\<close>

record chain =
  GetRawTransaction :: "string \<Rightarrow> string option"
  GetBlockHeader :: "string \<Rightarrow> int option"
  GetMempoolTransactions :: "string list option"
  GetMempoolTransaction :: "string \<Rightarrow> int option option"
  HexDecode :: "string \<Rightarrow> byte list option"
  HexEncode :: "byte list \<Rightarrow> string"
  HexEncodeReversed :: "byte list \<Rightarrow> string"
  DecodeTx :: "byte list \<Rightarrow> BlockTx"
  ClassifyScript :: "byte list \<Rightarrow> string \<times> string"

text \<open>
  The three steps the source repeats for a spent output: fetch the raw transaction,
  decode the hex, decode the transaction. Any failure gives \<open>None\<close>.
\<close>

definition fetch_prev_tx :: "chain \<Rightarrow> string \<Rightarrow> BlockTx option" where
  "fetch_prev_tx c txIDHex =
     (case GetRawTransaction c txIDHex of
        None \<Rightarrow> None
      | Some hex \<Rightarrow>
          (case HexDecode c hex of None \<Rightarrow> None | Some prevTxBytes \<Rightarrow> Some (DecodeTx c prevTxBytes)))"

definition to_doge :: "int \<Rightarrow> real" where
  "to_doge v = real_of_int v / 100000000"

section \<open>The indexer (package main)\<close>

subsection \<open>The map of tracked addresses\<close>

text \<open>
  \<open>trackedAddrs\<close> is a Go map from the address to its id and threshold, filled row
  by row. It is an association list: a later row of the same address replaces the
  entry, and the loops over the map visit the entries in the order of first insertion
  (Go leaves the order open; the entries are updated under distinct ids).
\<close>

type_synonym addr_info = "int \<times> int"

definition load_trackedAddrs :: "store \<Rightarrow> (string \<times> addr_info) list" where
  "load_trackedAddrs db =
     fold (\<lambda>a m. AList.update (a_Address a) (a_ID a, a_RequiredConfirmations a) m)
       (tracked_addresses db) []"

subsection \<open>Confirmations and status\<close>

text \<open>
  The SQL expression \<open>CASE WHEN $1 - block_height + 1 > 50 THEN 50 ELSE $1 - block_height + 1 END\<close>.
  Heights are integers without a bound here; the \<open>CAST AS INTEGER\<close> of the source is
  the identity on heights of the chain.
\<close>

definition capped_confirmations :: "int \<Rightarrow> int \<Rightarrow> int" where
  "capped_confirmations height block_height =
     (if height - block_height + 1 > 50 then 50 else height - block_height + 1)"

text \<open>
  The bulk update at the start of a block: one \<open>UPDATE\<close> per tracked address, on
  all rows of that address. Every column on the right of \<open>SET\<close> is the value of
  the row before the statement.
\<close>

definition refresh_row :: "int \<Rightarrow> int \<Rightarrow> Transaction \<Rightarrow> Transaction" where
  "refresh_row height requiredConfirmations t =
     t\<lparr>t_Confirmations :=
         (case t_BlockHeight t of
            Some bh \<Rightarrow> capped_confirmations height bh
          | None \<Rightarrow> 0),
       t_Status :=
         (case t_BlockHeight t of
            Some bh \<Rightarrow>
              if capped_confirmations height bh \<ge> requiredConfirmations then ''confirmed''
              else ''pending''
          | None \<Rightarrow> ''pending'')\<rparr>"

definition update_confirmations :: "int \<Rightarrow> addr_info \<Rightarrow> store \<Rightarrow> store" where
  "update_confirmations height addrInfo db =
     db\<lparr>transactions :=
          map (\<lambda>t. if t_AddressID t = fst addrInfo then refresh_row height (snd addrInfo) t else t)
            (transactions db)\<rparr>"

text \<open>
  The \<open>UPDATE ... WHERE id = $8\<close> of a row that is already there when a block
  mentions its transaction. The \<open>CASE\<close> expressions read the block height the row
  had before the statement: a row without one gets 1 confirmation and the status
  \<open>pending\<close>.
\<close>

definition update_existing ::
  "ChainBlock \<Rightarrow> real \<Rightarrow> int \<Rightarrow> int \<Rightarrow> string \<Rightarrow> string \<Rightarrow> int \<Rightarrow> store \<Rightarrow> store" where
  "update_existing block fee timestamp requiredConfirmations sender receiver existingTxID db =
     db\<lparr>transactions :=
          map (\<lambda>t. if t_ID t = existingTxID
                    then t\<lparr>t_BlockHash := Some (Hash block),
                           t_BlockHeight := Some (Height block),
                           t_Fee := fee,
                           t_Timestamp := timestamp,
                           t_Confirmations :=
                             (case t_BlockHeight t of
                                Some bh \<Rightarrow> capped_confirmations (Height block) bh
                              | None \<Rightarrow> 1),
                           t_Status :=
                             (case t_BlockHeight t of
                                Some bh \<Rightarrow>
                                  if capped_confirmations (Height block) bh \<ge> requiredConfirmations
                                  then ''confirmed'' else ''pending''
                              | None \<Rightarrow> ''pending''),
                           t_SenderAddress := sender,
                           t_ReceiverAddress := receiver\<rparr>
                    else t)
            (transactions db)\<rparr>"

text \<open>\<open>SELECT id FROM transactions WHERE address_id = $1 AND tx_id = $2\<close>, first row.\<close>

definition existing_transaction :: "store \<Rightarrow> int \<Rightarrow> string \<Rightarrow> int option" where
  "existing_transaction db addressID txID =
     map_option t_ID (find (\<lambda>t. t_AddressID t = addressID \<and> t_TxID t = txID) (transactions db))"

text \<open>
  What both directions do with the row of \<open>(address, transaction)\<close>: insert it with
  one confirmation and the status by the threshold when it is not there, update it
  otherwise.
\<close>

definition record_transaction ::
  "ChainBlock \<Rightarrow> BlockTx \<Rightarrow> real \<Rightarrow> int \<Rightarrow> addr_info \<Rightarrow> real \<Rightarrow> bool \<Rightarrow> string \<Rightarrow> string
     \<Rightarrow> store \<Rightarrow> store" where
  "record_transaction block tx fee timestamp addrInfo amount incoming sender receiver db =
     (case existing_transaction db (fst addrInfo) (tx_TxID tx) of
        None \<Rightarrow>
          (let confirmations = 1;
               status = (if confirmations \<ge> snd addrInfo then ''confirmed'' else ''pending'')
           in AddTransaction db
                \<lparr>t_ID = 0, t_AddressID = fst addrInfo, t_TxID = tx_TxID tx,
                 t_BlockHash = Some (Hash block), t_BlockHeight = Some (Height block),
                 t_Amount = amount, t_Fee = fee, t_Timestamp = timestamp,
                 t_IsIncoming = incoming, t_Confirmations = confirmations, t_Status = status,
                 t_SenderAddress = sender, t_ReceiverAddress = receiver\<rparr>)
      | Some existingTxID \<Rightarrow>
          update_existing block fee timestamp (snd addrInfo) sender receiver existingTxID db)"

subsection \<open>ProcessBlockTransactions\<close>

definition input_value :: "chain \<Rightarrow> BlockTxIn \<Rightarrow> real" where
  "input_value c vin =
     (if in_TxID vin = [] then 0
      else (case fetch_prev_tx c (HexEncodeReversed c (in_TxID vin)) of
              None \<Rightarrow> 0
            | Some prevTx \<Rightarrow>
                if in_VOut vin < length (tx_VOut prevTx)
                then to_doge (out_Value (tx_VOut prevTx ! in_VOut vin)) else 0))"

definition tx_fee :: "chain \<Rightarrow> BlockTx \<Rightarrow> real" where
  "tx_fee c tx =
     (if length (tx_VIn tx) > 0
      then fold (\<lambda>vin totalInputs. totalInputs + input_value c vin) (tx_VIn tx) 0
           - fold (\<lambda>vout totalOutputs. totalOutputs + to_doge (out_Value vout)) (tx_VOut tx) 0
      else 0)"

definition sender_of :: "chain \<Rightarrow> BlockTx \<Rightarrow> string" where
  "sender_of c tx =
     (case tx_VIn tx of
        [] \<Rightarrow> []
      | vin0 # _ \<Rightarrow>
          if in_TxID vin0 = [] then []
          else (case fetch_prev_tx c (HexEncodeReversed c (in_TxID vin0)) of
                  None \<Rightarrow> []
                | Some prevTx \<Rightarrow>
                    if in_VOut vin0 < length (tx_VOut prevTx)
                    then snd (ClassifyScript c (out_Script (tx_VOut prevTx ! in_VOut vin0)))
                    else []))"

definition receiver_of :: "chain \<Rightarrow> BlockTx \<Rightarrow> string" where
  "receiver_of c tx =
     (case tx_VOut tx of [] \<Rightarrow> [] | vout0 # _ \<Rightarrow> snd (ClassifyScript c (out_Script vout0)))"

definition process_output ::
  "chain \<Rightarrow> (string \<times> addr_info) list \<Rightarrow> ChainBlock \<Rightarrow> BlockTx \<Rightarrow> real \<Rightarrow> int
     \<Rightarrow> nat \<times> BlockTxOut \<Rightarrow> store \<Rightarrow> store" where
  "process_output c trackedAddrs block tx fee timestamp ivout db =
     (let (i, vout) = ivout; (scriptType, addr) = ClassifyScript c (out_Script vout) in
      if scriptType = [] then db
      else (case map_of trackedAddrs addr of
              None \<Rightarrow> db
            | Some addrInfo \<Rightarrow>
                (let amount = to_doge (out_Value vout);
                     senderAddress = sender_of c tx;
                     db1 = AddUnspentOutput db
                             \<lparr>u_ID = 0, u_AddressID = fst addrInfo, u_TxID = tx_TxID tx,
                              u_Vout = int i, u_Amount = amount,
                              u_Script = HexEncode c (out_Script vout)\<rparr>
                 in record_transaction block tx fee timestamp addrInfo amount True
                      senderAddress addr db1)))"

definition process_input ::
  "chain \<Rightarrow> (string \<times> addr_info) list \<Rightarrow> ChainBlock \<Rightarrow> BlockTx \<Rightarrow> real \<Rightarrow> int
     \<Rightarrow> BlockTxIn \<Rightarrow> store \<Rightarrow> store" where
  "process_input c trackedAddrs block tx fee timestamp vin db =
     (if in_TxID vin = [] then db
      else
        (let txIDHex = HexEncodeReversed c (in_TxID vin) in
         case fetch_prev_tx c txIDHex of
           None \<Rightarrow> db
         | Some prevTx \<Rightarrow>
             if in_VOut vin < length (tx_VOut prevTx) then
               (let prevOut = tx_VOut prevTx ! in_VOut vin;
                    (scriptType, addr) = ClassifyScript c (out_Script prevOut) in
                if scriptType = [] then db
                else (case map_of trackedAddrs addr of
                        None \<Rightarrow> db
                      | Some addrInfo \<Rightarrow>
                          (let amount = - to_doge (out_Value prevOut);
                               receiverAddress = receiver_of c tx;
                               db1 = RemoveUnspentOutput db (fst addrInfo) txIDHex (int (in_VOut vin))
                           in record_transaction block tx fee timestamp addrInfo amount False
                                addr receiverAddress db1)))
             else db))"

definition process_tx ::
  "chain \<Rightarrow> (string \<times> addr_info) list \<Rightarrow> ChainBlock \<Rightarrow> BlockTx \<Rightarrow> store \<Rightarrow> store" where
  "process_tx c trackedAddrs block tx db =
     (let fee = tx_fee c tx in
      case GetBlockHeader c (Hash block) of
        None \<Rightarrow> db
      | Some timestamp \<Rightarrow>
          (let db1 = fold (process_output c trackedAddrs block tx fee timestamp)
                       (enumerate 0 (tx_VOut tx)) db
           in fold (process_input c trackedAddrs block tx fee timestamp) (tx_VIn tx) db1))"

text \<open>
  The balance of every entry of the map, from the unspent outputs that
  \<open>GetAddressDetails\<close> returns for its address.
\<close>

definition update_balance :: "string \<times> addr_info \<Rightarrow> store \<Rightarrow> store" where
  "update_balance entry db =
     (let ((_, _, unspentOutputs), db') = GetAddressDetails db (fst entry);
          balance = fold (\<lambda>output balance. balance + u_Amount output) unspentOutputs 0
      in UpdateAddressBalance db' (fst (snd entry)) balance)"

definition ProcessBlockTransactions :: "chain \<Rightarrow> store \<Rightarrow> ChainBlock \<Rightarrow> store" where
  "ProcessBlockTransactions c db block =
     (let trackedAddrs = load_trackedAddrs db;
          db1 = fold (\<lambda>entry. update_confirmations (Height block) (snd entry)) trackedAddrs db;
          db2 = fold (process_tx c trackedAddrs block) (Tx block) db1
      in fold update_balance trackedAddrs db2)"

subsection \<open>HandleChainReorganization\<close>

text \<open>
  The rows of one undone block, each joined (\<open>LEFT JOIN\<close>) with the unspent outputs
  of the same address and transaction id: a row without such an output appears once,
  with no output.
\<close>

definition undo_rows :: "store \<Rightarrow> string \<Rightarrow> (Transaction \<times> UnspentOutput option) list" where
  "undo_rows db blockHash =
     concat (map (\<lambda>t.
         (case filter (\<lambda>u. u_AddressID u = t_AddressID t \<and> u_TxID u = t_TxID t) (unspent_outputs db) of
            [] \<Rightarrow> [(t, None)]
          | us \<Rightarrow> map (\<lambda>u. (t, Some u)) us))
       (filter (\<lambda>t. t_BlockHash t = Some blockHash) (transactions db)))"

definition undo_row :: "Transaction \<times> UnspentOutput option \<Rightarrow> store \<Rightarrow> store" where
  "undo_row row db =
     (let (t, unspent) = row;
          db1 = (case unspent of
                   Some u \<Rightarrow>
                     if t_IsIncoming t
                     then RemoveUnspentOutput db (t_AddressID t) (u_TxID u) (u_Vout u) else db
                 | None \<Rightarrow> db)
      in db1\<lparr>transactions := filter (\<lambda>r. t_ID r \<noteq> t_ID t) (transactions db1)\<rparr>)"

definition undo_block :: "string \<Rightarrow> store \<Rightarrow> store" where
  "undo_block blockHash db = fold undo_row (undo_rows db blockHash) db"

definition HandleChainReorganization :: "store \<Rightarrow> UndoForkBlocks \<Rightarrow> store" where
  "HandleChainReorganization db undo =
     (let trackedAddrs = fold (\<lambda>a m. AList.update (a_Address a) (a_ID a) m) (tracked_addresses db) [];
          db1 = fold undo_block (BlockHashes undo) db
      in fold (\<lambda>entry. update_balance (fst entry, (snd entry, 0))) trackedAddrs db1)"

subsection \<open>The loop of \<open>main\<close> over the walker's events\<close>

datatype event = Connect ChainBlock | Undo UndoForkBlocks

text \<open>
  A block is connected by writing the cursor (the height and the hash of the block) and
  then processing its transactions; an undo logs the block to resume from and the last
  valid height, calls \<open>HandleChainReorganization\<close>, and does nothing else.
\<close>

definition process_event :: "chain \<Rightarrow> store \<Rightarrow> event \<Rightarrow> store" where
  "process_event c db ev =
     (case ev of
        Connect block \<Rightarrow>
          ProcessBlockTransactions c (UpdateLastProcessedBlock db (Height block) (Hash block)) block
      | Undo undo \<Rightarrow> HandleChainReorganization db undo)"

section \<open>The mempool tracker (package mempool)\<close>

text \<open>
  The tracker keeps its own map of tracked addresses. A tick reloads the map from the
  database, lists the node's mempool and looks at every transaction in it. A row is
  written only after a \<open>SELECT\<close> found none for the address and the transaction id
  the node listed; the struct literal sets neither block hash nor block height.
\<close>

definition RefreshAddresses :: "store \<Rightarrow> (string \<times> addr_info) list" where
  "RefreshAddresses db = load_trackedAddrs db"

definition add_pending ::
  "addr_info \<Rightarrow> string \<Rightarrow> real \<Rightarrow> bool \<Rightarrow> string \<Rightarrow> string \<Rightarrow> int \<Rightarrow> store \<Rightarrow> store" where
  "add_pending addrInfo txid amount incoming sender receiver timestamp db =
     (case existing_transaction db (fst addrInfo) txid of
        None \<Rightarrow>
          AddTransaction db
            \<lparr>t_ID = 0, t_AddressID = fst addrInfo, t_TxID = txid,
             t_BlockHash = None, t_BlockHeight = None,
             t_Amount = amount, t_Fee = 0, t_Timestamp = timestamp,
             t_IsIncoming = incoming, t_Confirmations = 0, t_Status = ''pending'',
             t_SenderAddress = sender, t_ReceiverAddress = receiver\<rparr>
      | Some _ \<Rightarrow> db)"

definition mempool_output ::
  "chain \<Rightarrow> (string \<times> addr_info) list \<Rightarrow> string \<Rightarrow> BlockTx \<Rightarrow> int \<Rightarrow> BlockTxOut
     \<Rightarrow> store \<Rightarrow> store" where
  "mempool_output c trackedAddrs txid tx timestamp vout db =
     (let (scriptType, addr) = ClassifyScript c (out_Script vout) in
      if scriptType = [] then db
      else (case map_of trackedAddrs addr of
              None \<Rightarrow> db
            | Some addrInfo \<Rightarrow>
                add_pending addrInfo txid (to_doge (out_Value vout)) True (sender_of c tx) addr
                  timestamp db))"

definition mempool_input ::
  "chain \<Rightarrow> (string \<times> addr_info) list \<Rightarrow> string \<Rightarrow> BlockTx \<Rightarrow> int \<Rightarrow> BlockTxIn
     \<Rightarrow> store \<Rightarrow> store" where
  "mempool_input c trackedAddrs txid tx timestamp vin db =
     (if in_TxID vin = [] then db
      else
        (case fetch_prev_tx c (HexEncodeReversed c (in_TxID vin)) of
           None \<Rightarrow> db
         | Some prevTx \<Rightarrow>
             if in_VOut vin < length (tx_VOut prevTx) then
               (let prevOut = tx_VOut prevTx ! in_VOut vin;
                    (scriptType, addr) = ClassifyScript c (out_Script prevOut) in
                if scriptType = [] then db
                else (case map_of trackedAddrs addr of
                        None \<Rightarrow> db
                      | Some addrInfo \<Rightarrow>
                          add_pending addrInfo txid (- to_doge (out_Value prevOut)) False addr
                            (receiver_of c tx) timestamp db))
             else db))"

definition mempool_tx :: "chain \<Rightarrow> (string \<times> addr_info) list \<Rightarrow> string \<Rightarrow> store \<Rightarrow> store" where
  "mempool_tx c trackedAddrs txid db =
     (case GetRawTransaction c txid of
        None \<Rightarrow> db
      | Some hex \<Rightarrow>
          (case GetMempoolTransaction c txid of
             None \<Rightarrow> db
           | Some None \<Rightarrow> db
           | Some (Some timestamp) \<Rightarrow>
               (case HexDecode c hex of
                  None \<Rightarrow> db
                | Some txBytes \<Rightarrow>
                    (let tx = DecodeTx c txBytes;
                         db1 = fold (mempool_output c trackedAddrs txid tx timestamp) (tx_VOut tx) db
                     in fold (mempool_input c trackedAddrs txid tx timestamp) (tx_VIn tx) db1))))"

datatype mempool_error = MempoolUnavailable

text \<open>
  One tick: the new map of the tracker, the database after the tick, and the error the
  tick returns when the node does not list its mempool.
\<close>

definition checkMempool ::
  "chain \<Rightarrow> store \<Rightarrow> mempool_error option \<times> (string \<times> addr_info) list \<times> store" where
  "checkMempool c db =
     (let trackedAddrs = RefreshAddresses db in
      case GetMempoolTransactions c of
        None \<Rightarrow> (Some MempoolUnavailable, trackedAddrs, db)
      | Some txids \<Rightarrow> (None, trackedAddrs, fold (mempool_tx c trackedAddrs) txids db))"

text \<open>\<open>AddAddress\<close>: the entry of an address the database knows; no change otherwise.\<close>

definition AddAddress :: "store \<Rightarrow> string \<Rightarrow> (string \<times> addr_info) list \<Rightarrow> (string \<times> addr_info) list" where
  "AddAddress db address trackedAddrs =
     (case find (\<lambda>a. a_Address a = address) (tracked_addresses db) of
        None \<Rightarrow> trackedAddrs
      | Some a \<Rightarrow> AList.update address (a_ID a, a_RequiredConfirmations a) trackedAddrs)"

section \<open>The API handlers (server/api/server.go)\<close>

text \<open>
  The handlers work on the database and on the map of the mempool tracker, when the
  server has one.
\<close>

record world =
  w_db :: store
  w_mempoolTracker :: "(string \<times> addr_info) list option"

type_synonym AddressResponse = "TrackedAddress \<times> Transaction list \<times> UnspentOutput list"

datatype store_error = StoreError

record TrackRequest =
  Address :: string
  RequiredConfirmations :: int

text \<open>Decoding the body into the struct: a member that is absent leaves the zero value.\<close>

definition decode_TrackRequest :: "json_track \<Rightarrow> TrackRequest" where
  "decode_TrackRequest j =
     \<lparr>Address = (case j_address j of None \<Rightarrow> [] | Some a \<Rightarrow> a),
      RequiredConfirmations = (case j_required_confirmations j of None \<Rightarrow> 0 | Some n \<Rightarrow> n)\<rparr>"

text \<open>
  \<open>db.GetOrCreateAddressWithDetails\<close> is not among the sources; the handler takes it
  as the parameter \<open>getOrCreate\<close>: database, address and threshold to the details and
  the new database, or an error.
\<close>

definition handleTrackAddress ::
  "(store \<Rightarrow> string \<Rightarrow> int \<Rightarrow> store_error + AddressResponse \<times> store)
     \<Rightarrow> (world, AddressResponse) handler" where
  "handleTrackAddress getOrCreate r w =
     (if Method r \<noteq> ''POST'' then (http_Error ''Method not allowed'' StatusMethodNotAllowed, w)
      else (case Body r of
              None \<Rightarrow> (http_Error ''Invalid request body'' StatusBadRequest, w)
            | Some j \<Rightarrow>
                (let req0 = decode_TrackRequest j;
                     req = (if RequiredConfirmations req0 < 1
                            then req0\<lparr>RequiredConfirmations := 1\<rparr> else req0)
                 in case getOrCreate (w_db w) (Address req) (RequiredConfirmations req) of
                      Inl err \<Rightarrow> (http_Error ''Error processing request'' StatusInternalServerError, w)
                    | Inr (details, db') \<Rightarrow>
                        (\<lparr>StatusCode = StatusOK, Reply = Json details\<rparr>,
                         w\<lparr>w_db := db',
                           w_mempoolTracker :=
                             map_option (AddAddress db' (Address req)) (w_mempoolTracker w)\<rparr>))))"

text \<open>\<open>strings.TrimPrefix\<close>.\<close>

definition TrimPrefix :: "string \<Rightarrow> string \<Rightarrow> string" where
  "TrimPrefix s prefix = (if take (length prefix) s = prefix then drop (length prefix) s else s)"

definition handleGetAddress :: "(world, AddressResponse) handler" where
  "handleGetAddress r w =
     (if Method r \<noteq> ''GET'' then (http_Error ''Method not allowed'' StatusMethodNotAllowed, w)
      else
        (let address = TrimPrefix (Path r) ''/api/address/'' in
         if address = [] then (http_Error ''Address required'' StatusBadRequest, w)
         else (let (details, db') = GetAddressDetails (w_db w) address
               in (\<lparr>StatusCode = StatusOK, Reply = Json details\<rparr>, w\<lparr>w_db := db'\<rparr>))))"

text \<open>
  Modelled from the spec: \<open>GetOrCreateAddressWithDetails\<close> is missing from the
  sources. By the Store contract it returns the row of the address, inserting it with
  balance 0 and the given threshold when it is absent, together with the address's
  transactions and unspent outputs. The contract calls the operation idempotent and
  says nothing of the threshold of an address that is already there; its row is left
  as it is here.
\<close>

definition GetOrCreateAddressWithDetails ::
  "store \<Rightarrow> string \<Rightarrow> int \<Rightarrow> store_error + AddressResponse \<times> store" where
  "GetOrCreateAddressWithDetails db address requiredConfirmations =
     (let db1 = (case find (\<lambda>a. a_Address a = address) (tracked_addresses db) of
                   Some _ \<Rightarrow> db
                 | None \<Rightarrow>
                     db\<lparr>tracked_addresses := tracked_addresses db @
                          [\<lparr>a_ID = next_address_id db, a_Address = address,
                            a_RequiredConfirmations = requiredConfirmations, a_Balance = 0\<rparr>],
                        next_address_id := next_address_id db + 1\<rparr>)
      in Inr (GetAddressDetails db1 address))"

text \<open>The two routes that \<open>Start\<close> registers, each behind the middleware.\<close>

definition track_endpoint ::
  "string \<Rightarrow> (store \<Rightarrow> string \<Rightarrow> int \<Rightarrow> store_error + AddressResponse \<times> store)
     \<Rightarrow> (world, AddressResponse) handler" where
  "track_endpoint apiToken getOrCreate = authMiddleware apiToken (handleTrackAddress getOrCreate)"

definition address_endpoint :: "string \<Rightarrow> (world, AddressResponse) handler" where
  "address_endpoint apiToken = authMiddleware apiToken handleGetAddress"

text \<open>The database right after \<open>InitDB\<close>: no rows, every key counter at 1.\<close>

definition empty_store :: store where
  "empty_store =
     \<lparr>tracked_addresses = [], transactions = [], unspent_outputs = [], block_tracker = None,
      next_address_id = 1, next_transaction_id = 1, next_unspent_id = 1\<rparr>"

section \<open>The codec (pkg/doge/encoding.go)\<close>

unbundle bit_operations_syntax

text \<open>
  \<open>uint32(data[o]) | uint32(data[o+1])<<8 | uint32(data[o+2])<<16 | uint32(data[o+3])<<24\<close>.
\<close>

definition le32 :: "byte list \<Rightarrow> nat \<Rightarrow> 32 word" where
  "le32 data offset =
     ucast (data ! offset) OR push_bit 8 (ucast (data ! (offset + 1)))
       OR push_bit 16 (ucast (data ! (offset + 2))) OR push_bit 24 (ucast (data ! (offset + 3)))"

record Header =
  bh_Version :: "32 word"
  bh_PrevBlock :: "byte list"
  bh_MerkleRoot :: "byte list"
  bh_Timestamp :: "32 word"
  bh_Bits :: "32 word"
  bh_Nonce :: "32 word"

record 'tx Block =
  b_Header :: Header
  b_Tx :: "'tx list"

text \<open>
  The errors of \<open>DecodeBlock\<close>: its own two, the error of the transaction decoder,
  and the panic of Go on a slice expression \<open>data[offset:]\<close> whose offset is outside
  the data.
\<close>

datatype 'e decode_error =
  BlockDataTooShort | InvalidTransactionCount | TransactionError 'e | SliceOutOfRange

text \<open>
  \<open>DecodeVarInt\<close>, \<open>DecodeTransaction\<close> and \<open>SerializeSize\<close> are defined in a file
  of the package that is not among the sources; they are parameters. \<open>decodeVarInt\<close>
  gives the value and the number of bytes it read, 0 when there is no varint.
\<close>

fun decode_transactions ::
  "(byte list \<Rightarrow> 'e + 'tx) \<Rightarrow> ('tx \<Rightarrow> int) \<Rightarrow> byte list \<Rightarrow> nat \<Rightarrow> int
     \<Rightarrow> 'e decode_error + 'tx list" where
  "decode_transactions decodeTransaction serializeSize data 0 offset = Inr []"
| "decode_transactions decodeTransaction serializeSize data (Suc k) offset =
     (if offset < 0 \<or> offset > int (length data) then Inl SliceOutOfRange
      else (case decodeTransaction (drop (nat offset) data) of
              Inl err \<Rightarrow> Inl (TransactionError err)
            | Inr tx \<Rightarrow>
                (case decode_transactions decodeTransaction serializeSize data k
                        (offset + serializeSize tx) of
                   Inl err \<Rightarrow> Inl err
                 | Inr txs \<Rightarrow> Inr (tx # txs))))"

definition DecodeBlock ::
  "(byte list \<Rightarrow> nat \<times> int) \<Rightarrow> (byte list \<Rightarrow> 'e + 'tx) \<Rightarrow> ('tx \<Rightarrow> int) \<Rightarrow> byte list
     \<Rightarrow> 'e decode_error + 'tx Block" where
  "DecodeBlock decodeVarInt decodeTransaction serializeSize data =
     (if length data < 80 then Inl BlockDataTooShort
      else
        (let header = \<lparr>bh_Version = le32 data 0,
                       bh_PrevBlock = take 32 (drop 4 data),
                       bh_MerkleRoot = take 32 (drop 36 data),
                       bh_Timestamp = le32 data 68,
                       bh_Bits = le32 data 72,
                       bh_Nonce = le32 data 76\<rparr>;
             isAuxPow = (bh_Version header \<ge> 0x20000000);
             (txCount, n) = decodeVarInt (drop 80 data)
         in if isAuxPow then
              (if n = 0 then Inl InvalidTransactionCount
               else if txCount > 0 then
                 (if 80 + n < 0 \<or> 80 + n > int (length data) then Inl SliceOutOfRange
                  else (case decodeTransaction (drop (nat (80 + n)) data) of
                          Inl err \<Rightarrow> Inl (TransactionError err)
                        | Inr tx \<Rightarrow> Inr \<lparr>b_Header = header, b_Tx = [tx]\<rparr>))
               else Inr \<lparr>b_Header = header, b_Tx = []\<rparr>)
            else
              (if n = 0 then Inl InvalidTransactionCount
               else (case decode_transactions decodeTransaction serializeSize data txCount (80 + n) of
                       Inl err \<Rightarrow> Inl err
                     | Inr txs \<Rightarrow> Inr \<lparr>b_Header = header, b_Tx = txs\<rparr>))))"

text \<open>
  Modelled from the spec: \<open>DecodeVarInt\<close> is missing from the sources. A varint
  whose first byte is below \<open>0xFD\<close> is that byte; \<open>0xFD\<close>, \<open>0xFE\<close> and \<open>0xFF\<close>
  announce 2, 4 and 8 bytes, least significant first. The result is the value and the
  number of bytes read, \<open>(0, 0)\<close> when the bytes end too early.
\<close>

definition le_nat :: "byte list \<Rightarrow> nat" where
  "le_nat bs = foldr (\<lambda>b v. unat b + 256 * v) bs 0"

definition DecodeVarInt :: "byte list \<Rightarrow> nat \<times> int" where
  "DecodeVarInt data =
     (case data of
        [] \<Rightarrow> (0, 0)
      | b # rest \<Rightarrow>
          if b < 0xFD then (unat b, 1)
          else (let k = (if b = 0xFD then 2 else if b = 0xFE then 4 else 8) in
                if length rest < k then (0, 0) else (le_nat (take k rest), 1 + int k)))"

section \<open>Addresses of a script (pkg/doge/spv.go)\<close>

text \<open>
  SHA-256 (\<open>crypto/sha256\<close>) and the base-58 encoder (\<open>mr-tron/base58\<close>) are
  libraries outside the repository; they are the parameters \<open>sum256\<close> and \<open>encode58\<close>.
\<close>

definition checksum :: "(byte list \<Rightarrow> byte list) \<Rightarrow> byte list \<Rightarrow> byte list" where
  "checksum sum256 input = take 4 (sum256 (sum256 input))"

definition Base58CheckEncode ::
  "(byte list \<Rightarrow> byte list) \<Rightarrow> (byte list \<Rightarrow> string) \<Rightarrow> byte list \<Rightarrow> byte \<Rightarrow> string" where
  "Base58CheckEncode sum256 encode58 input version =
     (let b = version # input; cksum = checksum sum256 b in encode58 (b @ cksum))"

definition ExtractAddresses ::
  "(byte list \<Rightarrow> byte list) \<Rightarrow> (byte list \<Rightarrow> string) \<Rightarrow> byte list \<Rightarrow> string list" where
  "ExtractAddresses sum256 encode58 script =
     (if length script < 23 then []
      else if length script = 25 \<and> script ! 0 = 0x76 \<and> script ! 1 = 0xa9 \<and> script ! 2 = 0x14
              \<and> script ! 23 = 0x88 \<and> script ! 24 = 0xac then
        (let pubKeyHash = take 20 (drop 3 script);
             data = 0x1E # pubKeyHash;
             hash1 = sum256 data;
             hash2 = sum256 hash1;
             cksum = take 4 hash2;
             final = data @ cksum
         in [Base58CheckEncode sum256 encode58 final 0x1E])
      else if length script = 23 \<and> script ! 0 = 0xa9 \<and> script ! 1 = 0x14 \<and> script ! 22 = 0x87 then
        (let scriptHash = take 20 (drop 2 script);
             data = 0x16 # scriptHash;
             hash1 = sum256 data;
             hash2 = sum256 hash1;
             cksum = take 4 hash2;
             final = data @ cksum
         in [Base58CheckEncode sum256 encode58 final 0x16])
      else [])"

text \<open>
  The standard Base58Check form of a hash under a version byte: base-58 of the version,
  the hash and the first four bytes of the double SHA-256 of version and hash.
\<close>

definition base58check :: "(byte list \<Rightarrow> byte list) \<Rightarrow> (byte list \<Rightarrow> string) \<Rightarrow> byte \<Rightarrow> byte list \<Rightarrow> string" where
  "base58check sum256 encode58 version hash =
     encode58 (version # hash @ take 4 (sum256 (sum256 (version # hash))))"

text \<open>The script \<open>OP_DUP OP_HASH160 <hash> OP_EQUALVERIFY OP_CHECKSIG\<close>.\<close>

definition p2pkh_script :: "byte list \<Rightarrow> byte list" where
  "p2pkh_script hash = [0x76, 0xa9, 0x14] @ hash @ [0x88, 0xac]"

section \<open>The SPV session: header synchronisation (pkg/doge/spv.go)\<close>

definition MaxHeadersResults :: nat where
  "MaxHeadersResults = 1000"

record BlockHeader =
  h_Version :: "32 word"
  h_PrevBlock :: "byte list"
  h_MerkleRoot :: "byte list"
  h_Time :: "32 word"
  h_Bits :: "32 word"
  h_Nonce :: "32 word"
  h_Height :: "32 word"

text \<open>
  The fields of the node that the handling of a \<open>headers\<close> message reads or writes.
  \<open>stored\<close> are the headers that \<open>db.StoreBlock\<close> accepted, \<open>sent\<close> the hashes of
  the \<open>getheaders\<close> messages that went out, both in order.
\<close>

record SPVNode =
  currentHeight :: "32 word"
  chainTip :: "BlockHeader option"
  headerSyncComplete :: bool
  stored :: "BlockHeader list"
  sent :: "string list"

text \<open>
  What is outside the file: the clock, the block database behind the interface
  (\<open>GetBlock\<close> gives \<open>None\<close> for an error and says whether a block came back,
  \<open>StoreBlock\<close> and \<open>sendGetHeaders\<close> say whether they succeeded), SHA-256 and the hex
  encoder.
\<close>

record spv_env =
  now :: int
  db_GetBlock :: "string \<Rightarrow> bool option"
  db_StoreBlock :: "BlockHeader \<Rightarrow> bool"
  sendGetHeaders :: "string \<Rightarrow> bool"
  sha256 :: "byte list \<Rightarrow> byte list"
  hex_EncodeToString :: "byte list \<Rightarrow> string"

datatype validation_error =
  InvalidVersion | TimestampTooFar | PreviousBlockError | PreviousBlockNotFound | TargetNotMet

datatype headers_error =
  CountError | PartialHeaders | InvalidHeader validation_error | StoreFailed | RequestFailed
  | NilChainTip

definition ReadVarInt :: "byte list \<Rightarrow> unit + nat" where
  "ReadVarInt payload =
     (case payload of
        [] \<Rightarrow> Inl ()
      | firstByte # rest \<Rightarrow>
          if firstByte < 0xfd then Inr (unat firstByte)
          else if firstByte = 0xfd then
            (if length payload < 3 then Inl () else Inr (le_nat (take 2 rest)))
          else if firstByte = 0xfe then
            (if length payload < 5 then Inl () else Inr (le_nat (take 4 rest)))
          else
            (if length payload < 9 then Inl () else Inr (le_nat (take 8 rest))))"

definition put32 :: "32 word \<Rightarrow> byte list" where
  "put32 w = [ucast w, ucast (drop_bit 8 w), ucast (drop_bit 16 w), ucast (drop_bit 24 w)]"

definition GetHash :: "spv_env \<Rightarrow> BlockHeader \<Rightarrow> byte list" where
  "GetHash env h =
     (let data = put32 (h_Version h) @ h_PrevBlock h @ h_MerkleRoot h @ put32 (h_Time h)
                   @ put32 (h_Bits h) @ put32 (h_Nonce h)
      in sha256 env (sha256 env data))"

definition CompactToBig :: "32 word \<Rightarrow> int" where
  "CompactToBig bits =
     (let mantissa = bits AND 0x007fffff;
          isNegative = (bits AND 0x00800000 \<noteq> 0);
          exponent = unat (drop_bit 24 bits);
          bn = (if exponent \<le> 3 then uint (drop_bit (8 * (3 - exponent)) mantissa)
                else uint mantissa * 2 ^ (8 * (exponent - 3)))
      in if isNegative then - bn else bn)"

text \<open>\<open>new(big.Int).SetBytes\<close>: the bytes as a big-endian number.\<close>

definition SetBytes :: "byte list \<Rightarrow> int" where
  "SetBytes bs = foldl (\<lambda>v b. 256 * v + uint b) 0 bs"

definition validateHeader :: "spv_env \<Rightarrow> SPVNode \<Rightarrow> BlockHeader \<Rightarrow> validation_error option" where
  "validateHeader env n header =
     (if h_Version header < 1 then Some InvalidVersion
      else if uint (h_Time header) > now env + 2 * 3600 then Some TimestampTooFar
      else if currentHeight n > 0
              \<and> db_GetBlock env (hex_EncodeToString env (h_PrevBlock header)) = None
           then Some PreviousBlockError
      else if currentHeight n > 0
              \<and> db_GetBlock env (hex_EncodeToString env (h_PrevBlock header)) = Some False
           then Some PreviousBlockNotFound
      else if SetBytes (GetHash env header) > CompactToBig (h_Bits header) then Some TargetNotMet
      else None)"

definition parse_header :: "byte list \<Rightarrow> BlockHeader" where
  "parse_header headerData =
     \<lparr>h_Version = le32 headerData 0,
      h_PrevBlock = take 32 (drop 4 headerData),
      h_MerkleRoot = take 32 (drop 36 headerData),
      h_Time = le32 headerData 68,
      h_Bits = le32 headerData 72,
      h_Nonce = le32 headerData 76,
      h_Height = 0\<rparr>"

text \<open>
  The loop over the announced headers, from the offset 1 in steps of 80. An error
  leaves the node as the loop has changed it so far.
\<close>

fun process_headers ::
  "spv_env \<Rightarrow> byte list \<Rightarrow> nat \<Rightarrow> nat \<Rightarrow> SPVNode \<Rightarrow> headers_error option \<times> SPVNode" where
  "process_headers env payload 0 offset n = (None, n)"
| "process_headers env payload (Suc k) offset n =
     (if offset + 80 > length payload then (Some PartialHeaders, n)
      else
        (let header = parse_header (take 80 (drop offset payload)) in
         case validateHeader env n header of
           Some err \<Rightarrow> (Some (InvalidHeader err), n)
         | None \<Rightarrow>
             (let n1 = n\<lparr>currentHeight := currentHeight n + 1\<rparr>;
                  header1 = header\<lparr>h_Height := currentHeight n1\<rparr>
              in if \<not> db_StoreBlock env header1 then (Some StoreFailed, n1)
                 else process_headers env payload k (offset + 80)
                        (n1\<lparr>chainTip := Some header1, stored := stored n1 @ [header1]\<rparr>))))"

definition handleHeadersMessage ::
  "spv_env \<Rightarrow> SPVNode \<Rightarrow> byte list \<Rightarrow> headers_error option \<times> SPVNode" where
  "handleHeadersMessage env n payload =
     (case ReadVarInt payload of
        Inl _ \<Rightarrow> (Some CountError, n)
      | Inr count \<Rightarrow>
          if count = 0 then (None, n\<lparr>headerSyncComplete := True\<rparr>)
          else
            (case process_headers env payload count 1 n of
               (Some err, n') \<Rightarrow> (Some err, n')
             | (None, n') \<Rightarrow>
                 if count = MaxHeadersResults then
                   (case chainTip n' of
                      None \<Rightarrow> (Some NilChainTip, n')
                    | Some lastHeader \<Rightarrow>
                        (let hash = hex_EncodeToString env (GetHash env lastHeader) in
                         if sendGetHeaders env hash then (None, n'\<lparr>sent := sent n' @ [hash]\<rparr>)
                         else (Some RequestFailed, n')))
                 else (None, n'\<lparr>headerSyncComplete := True\<rparr>)))"

section \<open>What the claims say, as predicates\<close>

text \<open>
  \<open>fresh_pending old added\<close>: every row of \<open>added\<close>, in the order of insertion,
  is pending with no confirmation and no block, and when it was inserted no row had
  its address and transaction id.
\<close>

fun fresh_pending :: "Transaction list \<Rightarrow> Transaction list \<Rightarrow> bool" where
  "fresh_pending old [] = True"
| "fresh_pending old (t # ts) =
     (t_Status t = ''pending'' \<and> t_Confirmations t = 0
      \<and> t_BlockHash t = None \<and> t_BlockHeight t = None
      \<and> \<not> list_ex (\<lambda>r. t_AddressID r = t_AddressID t \<and> t_TxID r = t_TxID t) old
      \<and> fresh_pending (old @ [t]) ts)"

text \<open>
  \<open>only_adds_pending db db'\<close>: the rows of \<open>db\<close> are all in \<open>db'\<close> as they were,
  followed by fresh pending rows, and the other tables and the cursor are the same.
\<close>

definition only_adds_pending :: "store \<Rightarrow> store \<Rightarrow> bool" where
  "only_adds_pending db db' =
     (\<exists>added. transactions db' = transactions db @ added
        \<and> fresh_pending (transactions db) added
        \<and> tracked_addresses db' = tracked_addresses db
        \<and> unspent_outputs db' = unspent_outputs db
        \<and> block_tracker db' = block_tracker db)"

text \<open>
  The invariant on confirmations: a row with a block height has
  \<open>min 50 (cursor height - block height + 1)\<close> confirmations, and its status is
  \<open>confirmed\<close> exactly when these reach the threshold of the address that owns it.
\<close>

definition row_confirmations_ok :: "int \<Rightarrow> TrackedAddress list \<Rightarrow> Transaction \<Rightarrow> bool" where
  "row_confirmations_ok height addrs t =
     (case t_BlockHeight t of
        None \<Rightarrow> True
      | Some bh \<Rightarrow>
          t_Confirmations t = min 50 (height - bh + 1)
          \<and> list_all (\<lambda>a. a_ID a \<noteq> t_AddressID t
                 \<or> ((t_Status t = ''confirmed'') = (t_Confirmations t \<ge> a_RequiredConfirmations a)))
               addrs)"

definition confirmations_invariant :: "store \<Rightarrow> bool" where
  "confirmations_invariant db =
     list_all (row_confirmations_ok (fst (GetLastProcessedBlock db)) (tracked_addresses db))
       (transactions db)"

text \<open>
  What the bulk update of one entry of the map does to one row: the rows of the entry's
  address are refreshed, the others are left.
\<close>

definition refresh_for :: "int \<Rightarrow> string \<times> addr_info \<Rightarrow> Transaction \<Rightarrow> Transaction" where
  "refresh_for height entry t =
     (if t_AddressID t = fst (snd entry) then refresh_row height (snd (snd entry)) t else t)"

text \<open>The sum of the unspent outputs of an address.\<close>

definition unspent_sum :: "store \<Rightarrow> int \<Rightarrow> real" where
  "unspent_sum db addressID =
     sum_list (map u_Amount (filter (\<lambda>u. u_AddressID u = addressID) (unspent_outputs db)))"

section \<open>Example inputs\<close>

text \<open>
  A node that knows two transactions: \<open>P0\<close>, a coinbase paying 6 DOGE to the
  address \<open>DOther\<close> (the script \<open>[9]\<close>), and \<open>T1\<close>, which spends that output
  and pays 5 DOGE to the address \<open>DAddr\<close> (the script \<open>[1]\<close>). The node lists
  \<open>T1\<close> in its mempool and has the header of the block \<open>B1\<close>. The raw form of
  \<open>P0\<close> is the byte 2, that of \<open>T1\<close> the byte 1.
\<close>

definition example_prev_tx :: BlockTx where
  "example_prev_tx =
     \<lparr>tx_TxID = ''P0'', tx_VIn = [\<lparr>in_TxID = [], in_VOut = 0\<rparr>],
      tx_VOut = [\<lparr>out_Value = 600000000, out_Script = [9]\<rparr>]\<rparr>"

definition example_tx :: BlockTx where
  "example_tx =
     \<lparr>tx_TxID = ''T1'', tx_VIn = [\<lparr>in_TxID = [2], in_VOut = 0\<rparr>],
      tx_VOut = [\<lparr>out_Value = 500000000, out_Script = [1]\<rparr>]\<rparr>"

definition example_chain :: chain where
  "example_chain =
     \<lparr>GetRawTransaction =
        (\<lambda>txid. if txid = ''T1'' then Some ''01'' else if txid = ''P0'' then Some ''02'' else None),
      GetBlockHeader = (\<lambda>h. if h = ''B1'' then Some 1700000000 else None),
      GetMempoolTransactions = Some [''T1''],
      GetMempoolTransaction = (\<lambda>txid. if txid = ''T1'' then Some (Some 1699999990) else None),
      HexDecode =
        (\<lambda>hex. if hex = ''01'' then Some [1] else if hex = ''02'' then Some [2] else None),
      HexEncode = (\<lambda>bs. if bs = [1] then ''01'' else ''09''),
      HexEncodeReversed = (\<lambda>bs. if bs = [2] then ''P0'' else ''T1''),
      DecodeTx = (\<lambda>bs. if bs = [1] then example_tx else example_prev_tx),
      ClassifyScript =
        (\<lambda>script. if script = [1] then (''p2pkh'', ''DAddr'')
                  else if script = [9] then (''p2pkh'', ''DOther'') else ([], []))\<rparr>"

definition example_block :: ChainBlock where
  "example_block = \<lparr>Hash = ''B1'', Height = 100, Tx = [example_tx]\<rparr>"

text \<open>The database with \<open>DAddr\<close> registered under the threshold 1 and the cursor at block 99.\<close>

definition example_store :: store where
  "example_store =
     empty_store
       \<lparr>tracked_addresses := [\<lparr>a_ID = 1, a_Address = ''DAddr'', a_RequiredConfirmations = 1,
                               a_Balance = 0\<rparr>],
        block_tracker := Some (99, ''B0''),
        next_address_id := 2\<rparr>"

text \<open>The same database after one tick of the mempool tracker: \<open>T1\<close> is pending.\<close>

definition example_store_pending :: store where
  "example_store_pending = snd (snd (checkMempool example_chain example_store))"

text \<open>The same database after the block \<open>B1\<close> was connected.\<close>

definition example_store_connected :: store where
  "example_store_connected = process_event example_chain example_store (Connect example_block)"

text \<open>The undo of \<open>B1\<close>, back to block 99.\<close>

definition example_undo :: UndoForkBlocks where
  "example_undo = \<lparr>LastValidHeight = 99, ResumeFromBlock = ''B0'', BlockHashes = [''B1'']\<rparr>"

text \<open>The same node when it fails to return block headers.\<close>

definition example_chain_no_header :: chain where
  "example_chain_no_header = example_chain\<lparr>GetBlockHeader := (\<lambda>h. None)\<rparr>"

text \<open>
  An AuxPoW block: version \<open>0x20000000\<close>, one transaction, 200 further bytes. The
  transaction decoder of the example takes the first byte as the transaction.
\<close>

definition example_auxpow_block :: "byte list" where
  "example_auxpow_block = [0, 0, 0, 0x20] @ replicate 76 0 @ [1, 0xAA] @ replicate 200 0xFF"

definition example_decodeTransaction :: "byte list \<Rightarrow> unit + byte" where
  "example_decodeTransaction bs = (case bs of [] \<Rightarrow> Inl () | b # _ \<Rightarrow> Inr b)"

text \<open>
  A peer that answers \<open>getheaders\<close> with a full batch: the count 2000 as a varint and
  160000 bytes, which the loop reads as 2000 headers that pass the validation of the
  example environment (every hash is 0 there).
\<close>

definition example_spv_env :: spv_env where
  "example_spv_env =
     \<lparr>now = 1700000000, db_GetBlock = (\<lambda>h. Some True), db_StoreBlock = (\<lambda>h. True),
      sendGetHeaders = (\<lambda>h. True), sha256 = (\<lambda>bs. replicate 32 0),
      hex_EncodeToString = (\<lambda>bs. ''00'')\<rparr>"

definition example_headers_2000 :: "byte list" where
  "example_headers_2000 = [0xfd, 0xd0, 0x07] @ replicate 160000 1"

definition example_node :: SPVNode where
  "example_node =
     \<lparr>currentHeight = 0, chainTip = None, headerSyncComplete = False, stored = [], sent = []\<rparr>"

section \<open>Properties\<close>

subsection \<open>Authorization\<close>

lemma Split_not_Nil: "Split s c \<noteq> []"
  by (induction s) (auto split: list.splits)

lemma Split_two: "Split s c = [a, b] \<Longrightarrow> s = a @ c # b"
proof (induction s arbitrary: a)
  case Nil
  then show ?case by simp
next
  case (Cons x xs)
  show ?case
  proof (cases "x = c")
    case True
    with Cons.prems have a: "a = []" and rest: "Split xs c = [b]" by simp_all
    have "xs = b"
      using rest
    proof (induction xs arbitrary: b)
      case Nil
      then show ?case by simp
    next
      case (Cons y ys)
      then show ?case
        using Split_not_Nil [of ys c] by (auto split: if_splits list.splits)
    qed
    with a True show ?thesis by simp
  next
    case False
    with Cons.prems obtain p where p: "Split xs c = [p, b]" and a: "a = x # p"
      by (auto split: list.splits)
    from Cons.IH [OF p] a show ?thesis by simp
  qed
qed

text \<open>
  C8. A request whose Authorization header is missing, is not \<open>Bearer\<close>, one
  space and the configured token, or carries another token, is answered with status
  401, and the wrapped handler is not run: whatever the handler is, the response is
  the middleware's own and the state is the one before the request. The three cases
  are spelled out through \<open>Split\<close>, and together they are the headers other than
  \<open>Bearer <token>\<close>.
\<close>

theorem authMiddleware_rejects:
  assumes "Authorization r = None
           \<or> (\<nexists>t. Split (Header_Get (Authorization r)) CHR '' '' = [''Bearer'', t])
           \<or> (\<exists>t. Split (Header_Get (Authorization r)) CHR '' '' = [''Bearer'', t] \<and> t \<noteq> apiToken)
           \<or> Header_Get (Authorization r) \<noteq> ''Bearer '' @ apiToken"
  shows "StatusCode (fst (authMiddleware apiToken next r s)) = 401
         \<and> snd (authMiddleware apiToken next r s) = s
         \<and> authMiddleware apiToken next r s = authMiddleware apiToken next' r s"
proof -
  let ?h = "Header_Get (Authorization r)"
  have rej: "?h = [] \<or> length (Split ?h CHR '' '') \<noteq> 2 \<or> Split ?h CHR '' '' ! 0 \<noteq> ''Bearer''
             \<or> Split ?h CHR '' '' ! 1 \<noteq> apiToken"
  proof (rule ccontr)
    assume "\<not> ?thesis"
    then have ne: "?h \<noteq> []" and len: "length (Split ?h CHR '' '') = 2"
      and p0: "Split ?h CHR '' '' ! 0 = ''Bearer''" and p1: "Split ?h CHR '' '' ! 1 = apiToken"
      by auto
    from len obtain a b where ab: "Split ?h CHR '' '' = [a, b]"
      by (cases "Split ?h CHR '' ''"; simp; rename_tac x xs; case_tac xs; simp)
    with p0 p1 have sp: "Split ?h CHR '' '' = [''Bearer'', apiToken]" by simp
    from Split_two [OF sp] have "?h = ''Bearer '' @ apiToken" by simp
    with assms sp ne show False by (auto simp: Header_Get_def)
  qed
  then show ?thesis
    by (auto simp: authMiddleware_def Let_def http_Error_def StatusUnauthorized_def)
qed

theorem authMiddleware_rejects_witness:
  "StatusCode (fst (authMiddleware ''secret'' (\<lambda>r s. (\<lparr>StatusCode = 200, Reply = Json ()\<rparr>, Suc s))
      \<lparr>Method = ''POST'', Path = ''/api/track'', Authorization = Some ''Bearer wrong'', Body = None\<rparr>
      (0::nat))) = 401
   \<and> snd (authMiddleware ''secret'' (\<lambda>r s. (\<lparr>StatusCode = 200, Reply = Json ()\<rparr>, Suc s))
      \<lparr>Method = ''POST'', Path = ''/api/track'', Authorization = Some ''Bearer wrong'', Body = None\<rparr>
      (0::nat)) = 0"
  using authMiddleware_rejects [of
      "\<lparr>Method = ''POST'', Path = ''/api/track'', Authorization = Some ''Bearer wrong'', Body = None\<rparr>"
      "''secret''" "\<lambda>r s. (\<lparr>StatusCode = 200, Reply = Json ()\<rparr>, Suc s)" "0::nat"]
  by (simp add: Header_Get_def)

lemma Split_no_sep: "c \<notin> set b \<Longrightarrow> Split b c = [b]"
  by (induction b) auto

lemma authMiddleware_accepts:
  assumes "Authorization r = Some (''Bearer '' @ apiToken)" and "CHR '' '' \<notin> set apiToken"
  shows "authMiddleware apiToken next r s = next r s"
  using assms by (simp add: authMiddleware_def Header_Get_def Split_no_sep)

subsection \<open>Registration\<close>

text \<open>
  C9. An authorized \<open>POST /api/track\<close> whose body has \<open>required_confirmations\<close>
  below 1, or has none, hands the Store the threshold 1 for the address, whatever the
  Store function is: the value the request stores is 1. When the Store succeeds the
  answer is 200 with the details it returned, and the address goes to the mempool
  tracker. The request is not refused for its threshold.
\<close>

theorem track_coerces_required_confirmations:
  assumes "Authorization r = Some (''Bearer '' @ apiToken)" and "CHR '' '' \<notin> set apiToken"
    and "Method r = ''POST''" and "Body r = Some j"
    and "RequiredConfirmations (decode_TrackRequest j) < 1"
  shows "track_endpoint apiToken getOrCreate r w =
     (case getOrCreate (w_db w) (Address (decode_TrackRequest j)) 1 of
        Inl err \<Rightarrow> (http_Error ''Error processing request'' 500, w)
      | Inr (details, db') \<Rightarrow>
          (\<lparr>StatusCode = 200, Reply = Json details\<rparr>,
           w\<lparr>w_db := db',
             w_mempoolTracker :=
               map_option (AddAddress db' (Address (decode_TrackRequest j))) (w_mempoolTracker w)\<rparr>))"
  using assms
  by (simp add: track_endpoint_def authMiddleware_accepts handleTrackAddress_def
      StatusInternalServerError_def StatusOK_def split: sum.splits)

text \<open>
  At the request of the spec's scenario (threshold 0, an address not seen before,
  the Store as the spec describes it) the stored threshold is 1.
\<close>

theorem track_coerces_required_confirmations_witness:
  "track_endpoint ''secret'' GetOrCreateAddressWithDetails
      \<lparr>Method = ''POST'', Path = ''/api/track'', Authorization = Some ''Bearer secret'',
       Body = Some \<lparr>j_address = Some ''DAddr'', j_required_confirmations = Some 0\<rparr>\<rparr>
      \<lparr>w_db = empty_store, w_mempoolTracker = Some []\<rparr>
   = (\<lparr>StatusCode = 200,
       Reply = Json (\<lparr>a_ID = 1, a_Address = ''DAddr'', a_RequiredConfirmations = 1,
                       a_Balance = 0\<rparr>, [], [])\<rparr>,
      \<lparr>w_db = empty_store
          \<lparr>tracked_addresses := [\<lparr>a_ID = 1, a_Address = ''DAddr'', a_RequiredConfirmations = 1,
                                  a_Balance = 0\<rparr>],
           next_address_id := 2\<rparr>,
       w_mempoolTracker = Some [(''DAddr'', 1, 1)]\<rparr>)"
  using track_coerces_required_confirmations [of
      "\<lparr>Method = ''POST'', Path = ''/api/track'', Authorization = Some ''Bearer secret'',
        Body = Some \<lparr>j_address = Some ''DAddr'', j_required_confirmations = Some 0\<rparr>\<rparr>"
      "''secret''" "\<lparr>j_address = Some ''DAddr'', j_required_confirmations = Some 0\<rparr>"
      GetOrCreateAddressWithDetails
      "\<lparr>w_db = empty_store, w_mempoolTracker = Some []\<rparr>"]
  by (simp add: decode_TrackRequest_def GetOrCreateAddressWithDetails_def GetAddressDetails_def
      GetOrCreateAddress_def empty_store_def AddAddress_def scan_transaction_def)

subsection \<open>Querying an address that was never registered\<close>

lemma GetAddressDetails_unknown:
  assumes "address \<notin> a_Address ` set (tracked_addresses db)"
    and "next_address_id db \<notin> t_AddressID ` set (transactions db)"
    and "next_address_id db \<notin> u_AddressID ` set (unspent_outputs db)"
  shows "GetAddressDetails db address =
     ((\<lparr>a_ID = next_address_id db, a_Address = address,
        a_RequiredConfirmations = default_required_confirmations, a_Balance = 0\<rparr>, [], []),
      db\<lparr>tracked_addresses := tracked_addresses db @
            [\<lparr>a_ID = next_address_id db, a_Address = address,
              a_RequiredConfirmations = default_required_confirmations, a_Balance = 0\<rparr>],
          next_address_id := next_address_id db + 1\<rparr>)"
proof -
  from assms(1) have "find (\<lambda>a. a_Address a = address) (tracked_addresses db) = None"
    by (auto simp: find_None_iff)
  moreover from assms(2) have "filter (\<lambda>t. t_AddressID t = next_address_id db) (transactions db) = []"
    unfolding filter_empty_conv by (metis image_eqI)
  moreover from assms(3) have "filter (\<lambda>u. u_AddressID u = next_address_id db) (unspent_outputs db) = []"
    unfolding filter_empty_conv by (metis image_eqI)
  ultimately show ?thesis
    by (simp add: GetAddressDetails_def GetOrCreateAddress_def Let_def)
qed

text \<open>
  C10. An authorized \<open>GET /api/address/<address>\<close> for an address that has no row
  is answered with 200, not with a not-found: the handler inserts a row for the
  address with balance 0 under the next free id, and returns that row with no
  transactions and no unspent outputs. The request writes to the database. The next
  id is free: no transaction or unspent output refers to it, as the foreign key of
  both tables on the address id has it.
\<close>

theorem get_unknown_address_registers:
  assumes "Authorization r = Some (''Bearer '' @ apiToken)" and "CHR '' '' \<notin> set apiToken"
    and "Method r = ''GET''" and "Path r = ''/api/address/'' @ address" and "address \<noteq> []"
    and "address \<notin> a_Address ` set (tracked_addresses (w_db w))"
    and "next_address_id (w_db w) \<notin> t_AddressID ` set (transactions (w_db w))"
    and "next_address_id (w_db w) \<notin> u_AddressID ` set (unspent_outputs (w_db w))"
  shows "address_endpoint apiToken r w =
     (\<lparr>StatusCode = 200,
       Reply = Json (\<lparr>a_ID = next_address_id (w_db w), a_Address = address,
                       a_RequiredConfirmations = default_required_confirmations,
                       a_Balance = 0\<rparr>, [], [])\<rparr>,
      w\<lparr>w_db := (w_db w)
           \<lparr>tracked_addresses := tracked_addresses (w_db w) @
              [\<lparr>a_ID = next_address_id (w_db w), a_Address = address,
                a_RequiredConfirmations = default_required_confirmations, a_Balance = 0\<rparr>],
            next_address_id := next_address_id (w_db w) + 1\<rparr>\<rparr>)"
proof -
  have "TrimPrefix (Path r) ''/api/address/'' = address"
    using assms(4) by (simp add: TrimPrefix_def)
  then show ?thesis
    using assms
    by (simp add: address_endpoint_def authMiddleware_accepts handleGetAddress_def
        GetAddressDetails_unknown StatusOK_def)
qed

theorem get_unknown_address_registers_witness:
  "address_endpoint ''secret''
      \<lparr>Method = ''GET'', Path = ''/api/address/DAddr'', Authorization = Some ''Bearer secret'',
       Body = None\<rparr>
      \<lparr>w_db = empty_store, w_mempoolTracker = Some []\<rparr>
   = (\<lparr>StatusCode = 200,
       Reply = Json (\<lparr>a_ID = 1, a_Address = ''DAddr'', a_RequiredConfirmations = 1,
                       a_Balance = 0\<rparr>, [], [])\<rparr>,
      \<lparr>w_db = empty_store
          \<lparr>tracked_addresses := [\<lparr>a_ID = 1, a_Address = ''DAddr'', a_RequiredConfirmations = 1,
                                  a_Balance = 0\<rparr>],
           next_address_id := 2\<rparr>,
       w_mempoolTracker = Some []\<rparr>)"
  using get_unknown_address_registers [of
      "\<lparr>Method = ''GET'', Path = ''/api/address/DAddr'', Authorization = Some ''Bearer secret'',
        Body = None\<rparr>"
      "''secret''" "''DAddr''" "\<lparr>w_db = empty_store, w_mempoolTracker = Some []\<rparr>"]
  by (simp add: empty_store_def default_required_confirmations_def)

subsection \<open>The mempool tracker only adds pending rows\<close>

lemma fresh_pending_append:
  "fresh_pending old (xs @ ys) = (fresh_pending old xs \<and> fresh_pending (old @ xs) ys)"
  by (induction xs arbitrary: old) auto

lemma only_adds_pending_refl: "only_adds_pending db db"
  by (simp add: only_adds_pending_def)

lemma only_adds_pending_trans:
  "only_adds_pending a b \<Longrightarrow> only_adds_pending b c \<Longrightarrow> only_adds_pending a c"
  unfolding only_adds_pending_def
  by (auto simp: fresh_pending_append)

lemma fold_only_adds_pending:
  assumes "\<And>x db. only_adds_pending db (f x db)"
  shows "only_adds_pending db (fold f xs db)"
proof (induction xs arbitrary: db)
  case Nil
  show ?case by (simp add: only_adds_pending_refl)
next
  case (Cons x xs)
  show ?case
    using only_adds_pending_trans [OF assms [of db x] Cons.IH [of "f x db"]] by simp
qed

lemma add_pending_only_adds:
  "only_adds_pending db (add_pending addrInfo txid amount incoming sender receiver timestamp db)"
proof (cases "existing_transaction db (fst addrInfo) txid")
  case None
  then have "\<not> list_ex (\<lambda>t. t_AddressID t = fst addrInfo \<and> t_TxID t = txid) (transactions db)"
    by (auto simp: existing_transaction_def find_None_iff list_ex_iff)
  with None show ?thesis
    by (simp add: add_pending_def AddTransaction_def only_adds_pending_def default_status_def)
next
  case (Some a)
  then show ?thesis by (simp add: add_pending_def only_adds_pending_refl)
qed

lemma mempool_output_only_adds:
  "only_adds_pending db (mempool_output c trackedAddrs txid tx timestamp vout db)"
  by (auto simp: mempool_output_def Let_def only_adds_pending_refl add_pending_only_adds
      split: prod.splits option.splits)

lemma mempool_input_only_adds:
  "only_adds_pending db (mempool_input c trackedAddrs txid tx timestamp vin db)"
  by (auto simp: mempool_input_def Let_def only_adds_pending_refl add_pending_only_adds
      split: prod.splits option.splits)

lemma mempool_tx_only_adds:
  "only_adds_pending db (mempool_tx c trackedAddrs txid db)"
proof -
  have "only_adds_pending db
          (fold (mempool_input c trackedAddrs txid tx timestamp) ins
             (fold (mempool_output c trackedAddrs txid tx timestamp) outs db))" for tx timestamp ins outs
    by (rule only_adds_pending_trans [OF fold_only_adds_pending fold_only_adds_pending])
       (rule mempool_output_only_adds mempool_input_only_adds)+
  then show ?thesis
    by (auto simp: mempool_tx_def Let_def only_adds_pending_refl split: option.splits)
qed

text \<open>
  C4. Whatever the node lists and whatever the database holds, a tick of the mempool
  tracker leaves every row of \<open>transactions\<close> as it was and only appends rows; each
  appended row is pending, has 0 confirmations and neither block hash nor block
  height, and was inserted when no row had its address and transaction id. The other
  tables and the cursor are not written.
\<close>

theorem checkMempool_only_adds_pending:
  "only_adds_pending db (snd (snd (checkMempool c db)))"
  by (auto simp: checkMempool_def Let_def only_adds_pending_refl
      intro: fold_only_adds_pending mempool_tx_only_adds split: option.splits)

text \<open>
  On the example a first tick inserts the row of \<open>T1\<close>, and a second tick changes
  nothing.
\<close>

theorem checkMempool_only_adds_pending_witness:
  "only_adds_pending example_store (snd (snd (checkMempool example_chain example_store)))
   \<and> transactions (snd (snd (checkMempool example_chain example_store))) =
       [\<lparr>t_ID = 1, t_AddressID = 1, t_TxID = ''T1'', t_BlockHash = None, t_BlockHeight = None,
         t_Amount = 5, t_Fee = 0, t_Timestamp = 0, t_IsIncoming = True, t_Confirmations = 0,
         t_Status = ''pending'', t_SenderAddress = [], t_ReceiverAddress = []\<rparr>]
   \<and> snd (snd (checkMempool example_chain (snd (snd (checkMempool example_chain example_store)))))
       = snd (snd (checkMempool example_chain example_store))"
  using checkMempool_only_adds_pending [of example_store example_chain]
  by (simp add: checkMempool_def RefreshAddresses_def load_trackedAddrs_def example_store_def
      empty_store_def example_chain_def example_tx_def example_prev_tx_def mempool_tx_def
      mempool_output_def mempool_input_def add_pending_def existing_transaction_def
      AddTransaction_def default_status_def sender_of_def to_doge_def fetch_prev_tx_def)

subsection \<open>Evaluating the indexer on the example\<close>

lemmas example_defs = example_store_def empty_store_def example_chain_def example_tx_def
  example_prev_tx_def example_block_def example_undo_def example_chain_no_header_def

lemmas mempool_defs = checkMempool_def RefreshAddresses_def load_trackedAddrs_def mempool_tx_def
  mempool_output_def mempool_input_def add_pending_def existing_transaction_def
  AddTransaction_def default_status_def sender_of_def to_doge_def fetch_prev_tx_def

lemmas indexer_defs = process_event_def ProcessBlockTransactions_def HandleChainReorganization_def
  UpdateLastProcessedBlock_def load_trackedAddrs_def update_confirmations_def refresh_row_def
  process_tx_def process_output_def process_input_def record_transaction_def update_existing_def
  existing_transaction_def AddTransaction_def AddUnspentOutput_def RemoveUnspentOutput_def
  update_balance_def GetAddressDetails_def GetOrCreateAddress_def UpdateAddressBalance_def
  tx_fee_def input_value_def sender_of_def receiver_of_def to_doge_def capped_confirmations_def
  undo_block_def undo_rows_def undo_row_def default_status_def scan_transaction_def
  fetch_prev_tx_def

lemma example_store_pending_eq:
  "example_store_pending =
     example_store
       \<lparr>transactions :=
          [\<lparr>t_ID = 1, t_AddressID = 1, t_TxID = ''T1'', t_BlockHash = None, t_BlockHeight = None,
            t_Amount = 5, t_Fee = 0, t_Timestamp = 0, t_IsIncoming = True, t_Confirmations = 0,
            t_Status = ''pending'', t_SenderAddress = [], t_ReceiverAddress = []\<rparr>],
        next_transaction_id := 2\<rparr>"
  by (simp add: example_store_pending_def example_defs mempool_defs)

lemma connect_pending_eq:
  "process_event example_chain example_store_pending (Connect example_block) =
     \<lparr>tracked_addresses =
        [\<lparr>a_ID = 1, a_Address = ''DAddr'', a_RequiredConfirmations = 1, a_Balance = 5\<rparr>],
      transactions =
        [\<lparr>t_ID = 1, t_AddressID = 1, t_TxID = ''T1'', t_BlockHash = Some ''B1'',
          t_BlockHeight = Some 100, t_Amount = 5, t_Fee = 1, t_Timestamp = 1700000000,
          t_IsIncoming = True, t_Confirmations = 1, t_Status = ''pending'',
          t_SenderAddress = ''DOther'', t_ReceiverAddress = ''DAddr''\<rparr>],
      unspent_outputs =
        [\<lparr>u_ID = 1, u_AddressID = 1, u_TxID = ''T1'', u_Vout = 0, u_Amount = 5,
          u_Script = ''01''\<rparr>],
      block_tracker = Some (100, ''B1''), next_address_id = 2, next_transaction_id = 2,
      next_unspent_id = 2\<rparr>"
  unfolding example_store_pending_eq
  by (simp add: example_defs indexer_defs)

lemma example_store_connected_eq:
  "example_store_connected =
     \<lparr>tracked_addresses =
        [\<lparr>a_ID = 1, a_Address = ''DAddr'', a_RequiredConfirmations = 1, a_Balance = 5\<rparr>],
      transactions =
        [\<lparr>t_ID = 1, t_AddressID = 1, t_TxID = ''T1'', t_BlockHash = Some ''B1'',
          t_BlockHeight = Some 100, t_Amount = 5, t_Fee = 0, t_Timestamp = 0,
          t_IsIncoming = True, t_Confirmations = 1, t_Status = ''pending'',
          t_SenderAddress = [], t_ReceiverAddress = []\<rparr>],
      unspent_outputs =
        [\<lparr>u_ID = 1, u_AddressID = 1, u_TxID = ''T1'', u_Vout = 0, u_Amount = 5,
          u_Script = ''01''\<rparr>],
      block_tracker = Some (100, ''B1''), next_address_id = 2, next_transaction_id = 2,
      next_unspent_id = 2\<rparr>"
  by (simp add: example_store_connected_def example_defs indexer_defs)

subsection \<open>The invariant on confirmations\<close>

text \<open>
  C1. The invariant does not hold after every block. A transaction that the mempool
  tracker recorded for an address with the threshold 1 is pending without a block; the
  invariant holds. When block 100 with that transaction is connected, the row is found
  and updated: it gets the block height 100 and 1 confirmation, which is
  \<open>min 50 (100 - 100 + 1)\<close> and reaches the threshold, but the status written is
  \<open>pending\<close>, because the statement derives the status from the block height the
  row had before. The insertion of a row that was not there computes the status from
  the threshold.
\<close>

theorem connect_of_pending_row_breaks_invariant:
  "confirmations_invariant example_store_pending
   \<and> \<not> confirmations_invariant
         (process_event example_chain example_store_pending (Connect example_block))
   \<and> map (\<lambda>t. (t_BlockHeight t, t_Confirmations t, t_Status t))
        (transactions (process_event example_chain example_store_pending (Connect example_block)))
       = [(Some 100, 1, ''pending'')]
   \<and> map a_RequiredConfirmations
        (tracked_addresses (process_event example_chain example_store_pending (Connect example_block)))
       = [1]
   \<and> block_tracker (process_event example_chain example_store_pending (Connect example_block))
       = Some (100, ''B1'')"
proof -
  have "confirmations_invariant example_store_pending"
    unfolding example_store_pending_eq
    by (simp add: confirmations_invariant_def row_confirmations_ok_def example_defs)
  moreover have "\<not> confirmations_invariant
         (process_event example_chain example_store_pending (Connect example_block))"
    unfolding connect_pending_eq
    by (simp add: confirmations_invariant_def row_confirmations_ok_def GetLastProcessedBlock_def)
  ultimately show ?thesis
    unfolding connect_pending_eq by simp
qed

text \<open>
  The second half of C1 holds: in a database whose addresses and ids are unique and
  whose rows belong to tracked addresses, the bulk update at the start of a block,
  which follows the write of the cursor, establishes the invariant for every row.
\<close>

lemma AList_update_fresh: "k \<notin> fst ` set al \<Longrightarrow> AList.update k v al = al @ [(k, v)]"
  by (induction al) auto

lemma fold_AList_update_distinct:
  assumes "distinct (map key xs)" and "set (map key xs) \<inter> fst ` set acc = {}"
  shows "fold (\<lambda>a m. AList.update (key a) (val a) m) xs acc = acc @ map (\<lambda>a. (key a, val a)) xs"
  using assms
proof (induction xs arbitrary: acc)
  case Nil
  then show ?case by simp
next
  case (Cons x xs)
  from Cons.prems have fresh: "key x \<notin> fst ` set acc" by auto
  have "set (map key xs) \<inter> fst ` set (acc @ [(key x, val x)]) = {}"
    using Cons.prems by auto
  with Cons.IH [of "acc @ [(key x, val x)]"] Cons.prems(1) fresh show ?case
    by (simp add: AList_update_fresh)
qed

lemma load_trackedAddrs_distinct:
  "distinct (map a_Address (tracked_addresses db)) \<Longrightarrow>
     load_trackedAddrs db =
       map (\<lambda>a. (a_Address a, a_ID a, a_RequiredConfirmations a)) (tracked_addresses db)"
  unfolding load_trackedAddrs_def
  using fold_AList_update_distinct [of a_Address "tracked_addresses db" "[]"
      "\<lambda>a. (a_ID a, a_RequiredConfirmations a)"]
  by simp

lemma update_confirmations_refresh_for:
  "update_confirmations height (snd e) db =
     db\<lparr>transactions := map (refresh_for height e) (transactions db)\<rparr>"
  by (simp add: update_confirmations_def refresh_for_def)

lemma refresh_for_hit:
  "fst (snd e) = t_AddressID t \<Longrightarrow> refresh_for height e t = refresh_row height (snd (snd e)) t"
  by (simp add: refresh_for_def)

lemma refresh_for_miss: "fst (snd e) \<noteq> t_AddressID t \<Longrightarrow> refresh_for height e t = t"
  by (auto simp: refresh_for_def)

lemma fold_refresh_for:
  "fold (\<lambda>entry db. db\<lparr>transactions := map (refresh_for height entry) (transactions db)\<rparr>) es db =
     db\<lparr>transactions := map (fold (refresh_for height) es) (transactions db)\<rparr>"
  by (induction es arbitrary: db) (simp_all add: comp_def)

lemma fold_update_confirmations:
  "fold (\<lambda>entry. update_confirmations height (snd entry)) es db =
     db\<lparr>transactions := map (fold (refresh_for height) es) (transactions db)\<rparr>"
proof -
  have "(\<lambda>entry. update_confirmations height (snd entry)) =
          (\<lambda>entry db. db\<lparr>transactions := map (refresh_for height entry) (transactions db)\<rparr>)"
    by (simp add: fun_eq_iff update_confirmations_refresh_for)
  then show ?thesis
    by (simp only: fold_refresh_for)
qed

lemma refresh_for_other:
  "t_AddressID t \<notin> (fst \<circ> snd) ` set es \<Longrightarrow> fold (refresh_for height) es t = t"
  by (induction es) (auto simp: refresh_for_miss)

lemma refresh_row_AddressID [simp]: "t_AddressID (refresh_row h rc t) = t_AddressID t"
  by (simp add: refresh_row_def)

lemma refresh_for_owner:
  assumes "distinct (map (fst \<circ> snd) es)" and "(k, t_AddressID t, rc) \<in> set es"
  shows "fold (refresh_for height) es t = refresh_row height rc t"
  using assms
proof (induction es arbitrary: t)
  case Nil
  then show ?case by simp
next
  case (Cons e es)
  show ?case
  proof (cases "fst (snd e) = t_AddressID t")
    case True
    with Cons.prems have e: "snd e = (t_AddressID t, rc)"
      by (cases e) (force simp: image_iff)
    have "t_AddressID (refresh_row height rc t) \<notin> (fst \<circ> snd) ` set es"
      using Cons.prems(1) True by auto
    from refresh_for_other [OF this] e True show ?thesis
      by (simp add: refresh_for_hit)
  next
    case False
    with Cons.prems have "(k, t_AddressID t, rc) \<in> set es" by auto
    with Cons.IH [of t] Cons.prems(1) False show ?thesis
      by (simp add: refresh_for_miss)
  qed
qed

lemma refresh_row_ok:
  assumes "\<forall>a \<in> set addrs. a_ID a = t_AddressID t \<longrightarrow> a_RequiredConfirmations a = rc"
  shows "row_confirmations_ok height addrs (refresh_row height rc t)"
  using assms
  by (auto simp: row_confirmations_ok_def refresh_row_def capped_confirmations_def list_all_iff
      split: option.splits)

lemma bulk_refresh_establishes_invariant:
  assumes "distinct (map a_Address (tracked_addresses db))"
    and "distinct (map a_ID (tracked_addresses db))"
    and "t_AddressID ` set (transactions db) \<subseteq> a_ID ` set (tracked_addresses db)"
    and "block_tracker db = Some (height, hash)"
  shows "confirmations_invariant
           (fold (\<lambda>entry. update_confirmations height (snd entry)) (load_trackedAddrs db) db)"
proof -
  let ?es = "map (\<lambda>a. (a_Address a, a_ID a, a_RequiredConfirmations a)) (tracked_addresses db)"
  have ids: "distinct (map (fst \<circ> snd) ?es)"
    using assms(2) by (simp add: comp_def)
  have "row_confirmations_ok height (tracked_addresses db) (fold (refresh_for height) ?es t)"
    if t: "t \<in> set (transactions db)" for t
  proof -
    from t assms(3) obtain a where a: "a \<in> set (tracked_addresses db)" "a_ID a = t_AddressID t"
      by (metis image_iff subsetD)
    then have "(a_Address a, t_AddressID t, a_RequiredConfirmations a) \<in> set ?es"
      by (auto simp: image_iff intro!: bexI [of _ a])
    from refresh_for_owner [OF ids this]
    have eq: "fold (refresh_for height) ?es t = refresh_row height (a_RequiredConfirmations a) t" .
    have "\<forall>b \<in> set (tracked_addresses db). a_ID b = t_AddressID t
            \<longrightarrow> a_RequiredConfirmations b = a_RequiredConfirmations a"
      using assms(2) a by (auto simp: distinct_map inj_on_def)
    from refresh_row_ok [OF this] eq show ?thesis by simp
  qed
  then show ?thesis
    using assms(4)
    by (simp add: confirmations_invariant_def load_trackedAddrs_distinct [OF assms(1)]
        fold_update_confirmations GetLastProcessedBlock_def list_all_iff)
qed

lemma connect_refresh_establishes_invariant:
  assumes "distinct (map a_Address (tracked_addresses db))"
    and "distinct (map a_ID (tracked_addresses db))"
    and "t_AddressID ` set (transactions db) \<subseteq> a_ID ` set (tracked_addresses db)"
  shows "confirmations_invariant
           (fold (\<lambda>entry. update_confirmations (Height block) (snd entry))
              (load_trackedAddrs (UpdateLastProcessedBlock db (Height block) (Hash block)))
              (UpdateLastProcessedBlock db (Height block) (Hash block)))"
  using assms
  by (intro bulk_refresh_establishes_invariant [where hash = "Hash block"])
     (simp_all add: UpdateLastProcessedBlock_def)

subsection \<open>A block connect is not all-or-nothing\<close>

lemma process_tx_no_header:
  "GetBlockHeader c (Hash block) = None \<Longrightarrow> process_tx c trackedAddrs block tx db = db"
  by (simp add: process_tx_def)

lemma fold_process_tx_no_header:
  "GetBlockHeader c (Hash block) = None \<Longrightarrow> fold (process_tx c trackedAddrs block) txs db = db"
  by (induction txs) (simp_all add: process_tx_no_header)

text \<open>
  C2, as stated, fails: the node of the example does not return the header of
  \<open>B1\<close>, so the connect of \<open>B1\<close> meets a failure for its one transaction. The
  database is not the one before: the cursor is at \<open>B1\<close>, while the transaction row
  and the unspent output of the block are not there.
\<close>

theorem connect_not_atomic_counterexample:
  "Tx example_block \<noteq> []
   \<and> GetBlockHeader example_chain_no_header (Hash example_block) = None
   \<and> process_event example_chain_no_header example_store (Connect example_block) \<noteq> example_store
   \<and> block_tracker (process_event example_chain_no_header example_store (Connect example_block))
       = Some (100, ''B1'')
   \<and> transactions (process_event example_chain_no_header example_store (Connect example_block)) = []
   \<and> unspent_outputs (process_event example_chain_no_header example_store (Connect example_block)) = []
   \<and> transactions example_store_connected \<noteq> []"
  unfolding example_store_connected_eq
  by (simp add: example_defs indexer_defs)

text \<open>
  C2, amended. The mutations of a block connect are separate statements without a
  database transaction around them, and a failure in the middle is skipped, not rolled
  back: when the node does not return the header of the block, none of the block's
  transactions is applied (no unspent output is inserted or deleted, no transaction
  row written), and the cursor update, the refresh of the confirmations and the
  recomputation of the balances are made all the same.
\<close>

theorem connect_without_header:
  assumes "GetBlockHeader c (Hash block) = None"
  shows "process_event c db (Connect block) =
     (let db0 = UpdateLastProcessedBlock db (Height block) (Hash block);
          trackedAddrs = load_trackedAddrs db0
      in fold update_balance trackedAddrs
           (fold (\<lambda>entry. update_confirmations (Height block) (snd entry)) trackedAddrs db0))"
  using assms
  by (simp add: process_event_def ProcessBlockTransactions_def Let_def fold_process_tx_no_header)

theorem connect_without_header_witness:
  "GetBlockHeader example_chain_no_header (Hash example_block) = None
   \<and> process_event example_chain_no_header example_store (Connect example_block) =
       example_store\<lparr>block_tracker := Some (100, ''B1'')\<rparr>"
  using connect_without_header [of example_chain_no_header example_block example_store]
  by (simp add: example_defs indexer_defs)

subsection \<open>Undo\<close>

text \<open>
  C3. The undo of \<open>B1\<close> on the database in which \<open>B1\<close> was connected deletes the
  transaction row of the block and the unspent output it created, and sets the balance
  to the sum of the remaining unspent outputs, 0. The cursor is not written: it stays
  at \<open>(100, B1)\<close>, the undone block, and is not \<open>(99, B0)\<close>, the last valid height
  and the block to resume from.
\<close>

theorem undo_leaves_cursor_at_undone_block:
  "block_tracker example_store_connected = Some (100, ''B1'')
   \<and> transactions (process_event example_chain example_store_connected (Undo example_undo)) = []
   \<and> unspent_outputs (process_event example_chain example_store_connected (Undo example_undo)) = []
   \<and> map a_Balance
        (tracked_addresses (process_event example_chain example_store_connected (Undo example_undo)))
       = [0]
   \<and> block_tracker (process_event example_chain example_store_connected (Undo example_undo))
       = Some (100, ''B1'')
   \<and> block_tracker (process_event example_chain example_store_connected (Undo example_undo))
       \<noteq> Some (LastValidHeight example_undo, ResumeFromBlock example_undo)"
  unfolding example_store_connected_eq
  by (simp add: example_defs indexer_defs)

text \<open>
  For every database and every undo: the cursor is left as it was, and no row of an
  undone block remains.
\<close>

lemma fold_preserves:
  assumes "\<And>x s. P s \<Longrightarrow> P (f x s)" and "P s"
  shows "P (fold f xs s)"
  using assms(2) by (induction xs arbitrary: s) (simp_all add: assms(1))

lemma update_balance_frame:
  "block_tracker (update_balance entry db) = block_tracker db
   \<and> transactions (update_balance entry db) = transactions db
   \<and> unspent_outputs (update_balance entry db) = unspent_outputs db"
  by (simp add: update_balance_def GetAddressDetails_def GetOrCreateAddress_def
      UpdateAddressBalance_def Let_def split: option.splits prod.splits)

lemma undo_row_frame:
  "block_tracker (undo_row row db) = block_tracker db
   \<and> set (transactions (undo_row row db)) \<subseteq> set (transactions db)
   \<and> set (unspent_outputs (undo_row row db)) \<subseteq> set (unspent_outputs db)"
  by (auto simp: undo_row_def RemoveUnspentOutput_def Let_def split: prod.splits option.splits)

lemma undo_block_frame:
  "block_tracker (undo_block h db) = block_tracker db
   \<and> set (transactions (undo_block h db)) \<subseteq> set (transactions db)
   \<and> set (unspent_outputs (undo_block h db)) \<subseteq> set (unspent_outputs db)"
  unfolding undo_block_def
  by (rule fold_preserves [where P = "\<lambda>s. block_tracker s = block_tracker db
        \<and> set (transactions s) \<subseteq> set (transactions db)
        \<and> set (unspent_outputs s) \<subseteq> set (unspent_outputs db)"])
     (use undo_row_frame in fastforce)+

lemma undo_keeps_cursor:
  "block_tracker (HandleChainReorganization db undo) = block_tracker db"
proof -
  have "block_tracker (fold undo_block hs db) = block_tracker db" for hs
    by (rule fold_preserves [where P = "\<lambda>s. block_tracker s = block_tracker db"])
       (simp_all add: undo_block_frame)
  moreover have "block_tracker (fold (\<lambda>entry. update_balance (fst entry, snd entry, 0)) es s)
                   = block_tracker s" for es s
    by (rule fold_preserves [where P = "\<lambda>r. block_tracker r = block_tracker s"])
       (simp_all add: update_balance_frame)
  ultimately show ?thesis
    by (simp add: HandleChainReorganization_def Let_def)
qed

lemma undo_row_deletes:
  "t \<notin> set (transactions (undo_row (t, u) db))"
  by (auto simp: undo_row_def RemoveUnspentOutput_def Let_def split: option.splits)

lemma fold_undo_row_deletes:
  "(t, u) \<in> set rows \<Longrightarrow> t \<notin> set (transactions (fold undo_row rows db))"
proof (induction rows arbitrary: db)
  case Nil
  then show ?case by simp
next
  case (Cons r rows)
  show ?case
  proof (cases "(t, u) \<in> set rows")
    case True
    from Cons.IH [OF this] show ?thesis by simp
  next
    case False
    with Cons.prems have r: "r = (t, u)" by simp
    have "set (transactions (fold undo_row rows (undo_row r db))) \<subseteq> set (transactions (undo_row r db))"
      by (rule fold_preserves [where P = "\<lambda>s. set (transactions s) \<subseteq> set (transactions (undo_row r db))"])
         (use undo_row_frame in fastforce)+
    with undo_row_deletes [of t u db] r show ?thesis by auto
  qed
qed

lemma undo_rows_covers:
  assumes "t \<in> set (transactions db)" and "t_BlockHash t = Some h"
  shows "\<exists>u. (t, u) \<in> set (undo_rows db h)"
proof (cases "filter (\<lambda>u. u_AddressID u = t_AddressID t \<and> u_TxID u = t_TxID t) (unspent_outputs db)")
  case Nil
  with assms have "(t, None) \<in> set (undo_rows db h)"
    by (force simp: undo_rows_def)
  then show ?thesis ..
next
  case (Cons u us)
  with assms have "(t, Some u) \<in> set (undo_rows db h)"
    by (force simp: undo_rows_def)
  then show ?thesis ..
qed

lemma undo_block_deletes:
  "t \<in> set (transactions (undo_block h db)) \<Longrightarrow> t_BlockHash t \<noteq> Some h"
proof
  assume t: "t \<in> set (transactions (undo_block h db))" and h: "t_BlockHash t = Some h"
  from t undo_block_frame [of h db] have "t \<in> set (transactions db)" by auto
  from undo_rows_covers [OF this h] obtain u where "(t, u) \<in> set (undo_rows db h)" ..
  from fold_undo_row_deletes [OF this] t show False
    by (simp add: undo_block_def)
qed

lemma fold_undo_block_deletes:
  "t \<in> set (transactions (fold undo_block hs db)) \<Longrightarrow> h \<in> set hs \<Longrightarrow> t_BlockHash t \<noteq> Some h"
proof (induction hs arbitrary: db t rule: rev_induct)
  case Nil
  then show ?case by simp
next
  case (snoc x xs)
  from snoc.prems(1) have t: "t \<in> set (transactions (undo_block x (fold undo_block xs db)))"
    by simp
  show ?case
  proof (cases "h = x")
    case True
    with undo_block_deletes [OF t] show ?thesis by simp
  next
    case False
    with snoc.prems(2) have "h \<in> set xs" by simp
    moreover from t undo_block_frame [of x "fold undo_block xs db"]
    have "t \<in> set (transactions (fold undo_block xs db))" by auto
    ultimately show ?thesis by (rule snoc.IH [rotated])
  qed
qed

lemma undo_deletes_rows_of_undone_blocks:
  assumes "t \<in> set (transactions (HandleChainReorganization db undo))"
    and "h \<in> set (BlockHashes undo)"
  shows "t_BlockHash t \<noteq> Some h"
proof -
  have "transactions (fold (\<lambda>entry. update_balance (fst entry, snd entry, 0)) es s)
          = transactions s" for es s
    by (rule fold_preserves [where P = "\<lambda>r. transactions r = transactions s"])
       (simp_all add: update_balance_frame)
  with assms(1) have "t \<in> set (transactions (fold undo_block (BlockHashes undo) db))"
    by (simp add: HandleChainReorganization_def Let_def)
  from fold_undo_block_deletes [OF this assms(2)] show ?thesis .
qed

text \<open>
  For every undo on a database with unique addresses, the balance of every tracked
  address is afterwards the sum of its remaining unspent outputs.
\<close>

lemma fold_add_sum_list:
  "fold (\<lambda>output balance. balance + f output) xs (b::real) = b + sum_list (map f xs)"
  by (induction xs arbitrary: b) simp_all

lemma find_address:
  assumes "distinct (map a_Address rows)" and "a \<in> set rows"
  shows "find (\<lambda>b. a_Address b = a_Address a) rows = Some a"
  using assms
proof (induction rows)
  case Nil
  then show ?case by simp
next
  case (Cons r rows)
  then show ?case by (auto simp: image_iff)
qed

lemma update_balance_known:
  assumes "distinct (map a_Address (tracked_addresses db))" and "a \<in> set (tracked_addresses db)"
  shows "update_balance (a_Address a, a_ID a, x) db =
     db\<lparr>tracked_addresses :=
          map (\<lambda>b. if a_ID b = a_ID a then b\<lparr>a_Balance := unspent_sum db (a_ID a)\<rparr> else b)
            (tracked_addresses db)\<rparr>"
  by (simp add: update_balance_def GetAddressDetails_def GetOrCreateAddress_def
      find_address [OF assms] UpdateAddressBalance_def fold_add_sum_list unspent_sum_def)

lemma fold_update_balance:
  assumes "distinct (map a_Address (tracked_addresses db))"
    and "set as \<subseteq> set (tracked_addresses db)"
  shows "\<exists>rows. fold (\<lambda>a. update_balance (a_Address a, a_ID a, x a)) as db
           = db\<lparr>tracked_addresses := rows\<rparr>
         \<and> map a_Address rows = map a_Address (tracked_addresses db)
         \<and> map a_ID rows = map a_ID (tracked_addresses db)
         \<and> (\<forall>b \<in> set rows. a_ID b \<in> a_ID ` set as \<longrightarrow> a_Balance b = unspent_sum db (a_ID b))"
  using assms(2)
proof (induction as rule: rev_induct)
  case Nil
  show ?case by (intro exI [of _ "tracked_addresses db"]) simp
next
  case (snoc a as)
  then obtain rows where rows:
    "fold (\<lambda>a. update_balance (a_Address a, a_ID a, x a)) as db = db\<lparr>tracked_addresses := rows\<rparr>"
    "map a_Address rows = map a_Address (tracked_addresses db)"
    "map a_ID rows = map a_ID (tracked_addresses db)"
    "\<forall>b \<in> set rows. a_ID b \<in> a_ID ` set as \<longrightarrow> a_Balance b = unspent_sum db (a_ID b)"
    by auto
  let ?db1 = "db\<lparr>tracked_addresses := rows\<rparr>"
  from snoc.prems have a: "a \<in> set (tracked_addresses db)" by simp
  then obtain i where i: "i < length (tracked_addresses db)" "tracked_addresses db ! i = a"
    by (auto simp: in_set_conv_nth)
  have len: "length rows = length (tracked_addresses db)"
    using rows(2) by (metis length_map)
  define a' where "a' = rows ! i"
  have a': "a' \<in> set rows" "a_Address a' = a_Address a" "a_ID a' = a_ID a"
    using i len rows(2,3) unfolding a'_def
    by (auto simp: list_eq_iff_nth_eq)
  have d1: "distinct (map a_Address (tracked_addresses ?db1))"
    using assms(1) rows(2) by simp
  have "update_balance (a_Address a', a_ID a', x a) ?db1 =
     ?db1\<lparr>tracked_addresses :=
          map (\<lambda>b. if a_ID b = a_ID a' then b\<lparr>a_Balance := unspent_sum ?db1 (a_ID a')\<rparr> else b)
            (tracked_addresses ?db1)\<rparr>"
    using a'(1) by (intro update_balance_known [OF d1]) simp
  then have step: "update_balance (a_Address a, a_ID a, x a) ?db1 =
     db\<lparr>tracked_addresses :=
          map (\<lambda>b. if a_ID b = a_ID a then b\<lparr>a_Balance := unspent_sum db (a_ID a)\<rparr> else b) rows\<rparr>"
    using a'(2,3) by (simp add: unspent_sum_def)
  let ?rows = "map (\<lambda>b. if a_ID b = a_ID a then b\<lparr>a_Balance := unspent_sum db (a_ID a)\<rparr> else b) rows"
  have h1: "(\<lambda>b. a_Address (if a_ID b = a_ID a then b\<lparr>a_Balance := unspent_sum db (a_ID a)\<rparr> else b))
             = a_Address"
    and h2: "(\<lambda>b. a_ID (if a_ID b = a_ID a then b\<lparr>a_Balance := unspent_sum db (a_ID a)\<rparr> else b))
             = a_ID"
    by (auto simp: fun_eq_iff)
  have "fold (\<lambda>a. update_balance (a_Address a, a_ID a, x a)) (as @ [a]) db
          = db\<lparr>tracked_addresses := ?rows\<rparr>"
    using rows(1) step by simp
  moreover have "map a_Address ?rows = map a_Address (tracked_addresses db)"
    using rows(2) by (simp add: comp_def h1)
  moreover have "map a_ID ?rows = map a_ID (tracked_addresses db)"
    using rows(3) by (simp add: comp_def h2)
  moreover have "\<forall>b \<in> set ?rows. a_ID b \<in> a_ID ` set (as @ [a])
                   \<longrightarrow> a_Balance b = unspent_sum db (a_ID b)"
    using rows(4) by auto
  ultimately show ?case by blast
qed

lemma undo_block_tracked: "tracked_addresses (undo_block h db) = tracked_addresses db"
  unfolding undo_block_def
  by (rule fold_preserves [where P = "\<lambda>s. tracked_addresses s = tracked_addresses db"])
     (simp_all add: undo_row_def RemoveUnspentOutput_def Let_def split: prod.splits option.splits)

lemma fold_undo_block_tracked: "tracked_addresses (fold undo_block hs db) = tracked_addresses db"
  by (rule fold_preserves [where P = "\<lambda>s. tracked_addresses s = tracked_addresses db"])
     (simp_all add: undo_block_tracked)

lemma undo_recomputes_balances:
  assumes "distinct (map a_Address (tracked_addresses db))"
    and "a \<in> set (tracked_addresses (HandleChainReorganization db undo))"
  shows "a_Balance a = unspent_sum (HandleChainReorganization db undo) (a_ID a)"
proof -
  let ?db1 = "fold undo_block (BlockHashes undo) db"
  have tr: "tracked_addresses ?db1 = tracked_addresses db"
    by (rule fold_undo_block_tracked)
  have entries: "fold (\<lambda>a m. AList.update (a_Address a) (a_ID a) m) (tracked_addresses db) []
                   = map (\<lambda>a. (a_Address a, a_ID a)) (tracked_addresses db)"
    using fold_AList_update_distinct [of a_Address "tracked_addresses db" "[]" a_ID] assms(1)
    by simp
  have "HandleChainReorganization db undo =
          fold (\<lambda>a. update_balance (a_Address a, a_ID a, 0)) (tracked_addresses ?db1) ?db1"
    by (simp add: HandleChainReorganization_def Let_def entries fold_map comp_def tr)
  moreover from fold_update_balance [of ?db1 "tracked_addresses ?db1" "\<lambda>a. 0"] assms(1) tr
  obtain rows where rows:
    "fold (\<lambda>a. update_balance (a_Address a, a_ID a, 0)) (tracked_addresses ?db1) ?db1
       = ?db1\<lparr>tracked_addresses := rows\<rparr>"
    "map a_ID rows = map a_ID (tracked_addresses ?db1)"
    "\<forall>b \<in> set rows. a_ID b \<in> a_ID ` set (tracked_addresses ?db1)
        \<longrightarrow> a_Balance b = unspent_sum ?db1 (a_ID b)"
    by auto
  ultimately have eq: "HandleChainReorganization db undo = ?db1\<lparr>tracked_addresses := rows\<rparr>"
    by simp
  with assms(2) have a: "a \<in> set rows" by simp
  then have "a_ID a \<in> set (map a_ID rows)" by simp
  with rows(2) have "a_ID a \<in> a_ID ` set (tracked_addresses ?db1)" by simp
  with rows(3) a have "a_Balance a = unspent_sum ?db1 (a_ID a)" by blast
  then show ?thesis by (simp add: eq unspent_sum_def)
qed

text \<open>
  For every undo on a database with unique row ids, no unspent output remains for the
  address and transaction of an incoming row of an undone block.
\<close>

lemma undo_row_transactions:
  "transactions (undo_row (t, u) db) = filter (\<lambda>r. t_ID r \<noteq> t_ID t) (transactions db)"
  by (simp add: undo_row_def RemoveUnspentOutput_def Let_def split: option.splits)

lemma fold_undo_row_keeps:
  assumes "r \<in> set (transactions db)" and "\<forall>row \<in> set rows. t_ID (fst row) \<noteq> t_ID r"
  shows "r \<in> set (transactions (fold undo_row rows db))"
  using assms
proof (induction rows arbitrary: db)
  case Nil
  then show ?case by simp
next
  case (Cons row rows)
  obtain t u where row: "row = (t, u)" by (cases row)
  with Cons.prems have "r \<in> set (transactions (undo_row row db))"
    by (simp add: undo_row_transactions)
  with Cons.IH [of "undo_row row db"] Cons.prems(2) show ?case by simp
qed

lemma undo_rows_from:
  assumes "row \<in> set (undo_rows db h)"
  shows "fst row \<in> set (transactions db) \<and> t_BlockHash (fst row) = Some h"
proof -
  define joined where "joined = (\<lambda>t::Transaction.
     (case filter (\<lambda>u. u_AddressID u = t_AddressID t \<and> u_TxID u = t_TxID t) (unspent_outputs db) of
        [] \<Rightarrow> [(t, None)]
      | us \<Rightarrow> map (\<lambda>u. (t, Some u)) us))"
  have "undo_rows db h =
          concat (map joined (filter (\<lambda>t. t_BlockHash t = Some h) (transactions db)))"
    by (simp add: undo_rows_def joined_def)
  with assms obtain t where t: "t \<in> set (transactions db)" "t_BlockHash t = Some h"
    and row: "row \<in> set (joined t)"
    by auto
  from row have "fst row = t"
    by (auto simp: joined_def split: list.splits)
  with t show ?thesis by simp
qed

lemma undo_block_keeps_other:
  assumes "distinct (map t_ID (transactions db))" and "r \<in> set (transactions db)"
    and "t_BlockHash r \<noteq> Some h"
  shows "r \<in> set (transactions (undo_block h db))"
  unfolding undo_block_def
proof (rule fold_undo_row_keeps [OF assms(2)], rule ballI)
  fix row assume "row \<in> set (undo_rows db h)"
  from undo_rows_from [OF this] assms(3)
  have "fst row \<in> set (transactions db)" "fst row \<noteq> r" by auto
  with assms(1,2) show "t_ID (fst row) \<noteq> t_ID r"
    by (auto simp: distinct_map inj_on_def)
qed

lemma fold_undo_row_distinct:
  "distinct (map t_ID (transactions db)) \<Longrightarrow>
     distinct (map t_ID (transactions (fold undo_row rows db)))"
proof (induction rows arbitrary: db)
  case Nil
  then show ?case by simp
next
  case (Cons row rows)
  obtain t u where row: "row = (t, u)" by (cases row)
  from Cons.prems have "distinct (map t_ID (transactions (undo_row row db)))"
    by (simp add: row undo_row_transactions distinct_map_filter)
  from Cons.IH [OF this] show ?case by simp
qed

lemma undo_row_removes_output:
  assumes "t_IsIncoming t" and "u_AddressID u = t_AddressID t"
  shows "u \<notin> set (unspent_outputs (undo_row (t, Some u) db))"
  using assms by (simp add: undo_row_def RemoveUnspentOutput_def Let_def)

lemma fold_undo_row_outputs_shrink:
  "set (unspent_outputs (fold undo_row rows db)) \<subseteq> set (unspent_outputs db)"
  by (rule fold_preserves [where P = "\<lambda>s. set (unspent_outputs s) \<subseteq> set (unspent_outputs db)"])
     (use undo_row_frame in fastforce)+

lemma fold_undo_row_removes_output:
  assumes "(t, Some u) \<in> set rows" and "t_IsIncoming t" and "u_AddressID u = t_AddressID t"
  shows "u \<notin> set (unspent_outputs (fold undo_row rows db))"
  using assms(1)
proof (induction rows arbitrary: db)
  case Nil
  then show ?case by simp
next
  case (Cons row rows)
  show ?case
  proof (cases "(t, Some u) \<in> set rows")
    case True
    from Cons.IH [OF this] show ?thesis by simp
  next
    case False
    with Cons.prems have row: "row = (t, Some u)" by simp
    from undo_row_removes_output [OF assms(2,3), of db]
      fold_undo_row_outputs_shrink [of rows "undo_row row db"] row
    show ?thesis by auto
  qed
qed

lemma undo_block_removes_output:
  assumes "t \<in> set (transactions db)" and "t_BlockHash t = Some h" and "t_IsIncoming t"
    and "u \<in> set (unspent_outputs db)" and "u_AddressID u = t_AddressID t" and "u_TxID u = t_TxID t"
  shows "u \<notin> set (unspent_outputs (undo_block h db))"
proof -
  let ?us = "filter (\<lambda>u. u_AddressID u = t_AddressID t \<and> u_TxID u = t_TxID t) (unspent_outputs db)"
  from assms(4-6) have "u \<in> set ?us" by simp
  then have "(t, Some u) \<in> set (case ?us of [] \<Rightarrow> [(t, None)] | us \<Rightarrow> map (\<lambda>u. (t, Some u)) us)"
    by (cases ?us) (auto simp: image_iff)
  with assms(1,2) have "(t, Some u) \<in> set (undo_rows db h)"
    unfolding undo_rows_def by (auto intro!: bexI [of _ t])
  from fold_undo_row_removes_output [OF this assms(3,5)] show ?thesis
    by (simp add: undo_block_def)
qed

lemma fold_undo_block_removes_output:
  assumes "distinct (map t_ID (transactions db))"
    and "t \<in> set (transactions db)" and "t_BlockHash t = Some h" and "h \<in> set hs"
    and "t_IsIncoming t" and "u_AddressID u = t_AddressID t" and "u_TxID u = t_TxID t"
  shows "u \<notin> set (unspent_outputs (fold undo_block hs db))"
  using assms(1,2,4)
proof (induction hs arbitrary: db)
  case Nil
  then show ?case by simp
next
  case (Cons x xs)
  have shrink: "set (unspent_outputs (fold undo_block xs s)) \<subseteq> set (unspent_outputs s)" for s
    by (rule fold_preserves [where P = "\<lambda>r. set (unspent_outputs r) \<subseteq> set (unspent_outputs s)"])
       (use undo_block_frame in fastforce)+
  show ?case
  proof (cases "u \<in> set (unspent_outputs (undo_block x db))")
    case False
    with shrink [of "undo_block x db"] show ?thesis by auto
  next
    case True
    with undo_block_frame [of x db] have u: "u \<in> set (unspent_outputs db)" by auto
    have "x \<noteq> h"
      using undo_block_removes_output [OF Cons.prems(2) _ assms(5) u assms(6,7), of x] True assms(3)
      by auto
    with Cons.prems(3) have h: "h \<in> set xs" by simp
    have "t \<in> set (transactions (undo_block x db))"
      using undo_block_keeps_other [OF Cons.prems(1,2)] assms(3) \<open>x \<noteq> h\<close> by simp
    moreover have "distinct (map t_ID (transactions (undo_block x db)))"
      using fold_undo_row_distinct [OF Cons.prems(1)] by (simp add: undo_block_def)
    ultimately show ?thesis
      using Cons.IH [of "undo_block x db"] h by simp
  qed
qed

lemma undo_deletes_outputs_of_incoming_rows:
  assumes "distinct (map t_ID (transactions db))"
    and "t \<in> set (transactions db)" and "t_BlockHash t = Some h" and "h \<in> set (BlockHashes undo)"
    and "t_IsIncoming t" and "u_AddressID u = t_AddressID t" and "u_TxID u = t_TxID t"
  shows "u \<notin> set (unspent_outputs (HandleChainReorganization db undo))"
proof -
  have "unspent_outputs (fold (\<lambda>entry. update_balance (fst entry, snd entry, 0)) es s)
          = unspent_outputs s" for es s
    by (rule fold_preserves [where P = "\<lambda>r. unspent_outputs r = unspent_outputs s"])
       (simp_all add: update_balance_frame)
  then have "unspent_outputs (HandleChainReorganization db undo)
               = unspent_outputs (fold undo_block (BlockHashes undo) db)"
    by (simp add: HandleChainReorganization_def Let_def)
  with fold_undo_block_removes_output [OF assms] show ?thesis by simp
qed

subsection \<open>The cursor after a connect\<close>

text \<open>
  Whatever the node answers, a connect leaves the cursor at the block: the write of
  the cursor is never taken back.
\<close>

lemma record_transaction_cursor:
  "block_tracker (record_transaction block tx fee timestamp addrInfo amount incoming sender receiver db)
     = block_tracker db"
  by (simp add: record_transaction_def AddTransaction_def update_existing_def Let_def
      split: option.splits)

lemma process_output_cursor:
  "block_tracker (process_output c trackedAddrs block tx fee timestamp ivout db) = block_tracker db"
  by (simp add: process_output_def record_transaction_cursor AddUnspentOutput_def Let_def
      split: prod.splits option.splits)

lemma process_input_cursor:
  "block_tracker (process_input c trackedAddrs block tx fee timestamp vin db) = block_tracker db"
  by (simp add: process_input_def record_transaction_cursor RemoveUnspentOutput_def Let_def
      split: prod.splits option.splits)

lemma fold_cursor:
  assumes "\<And>x s. block_tracker (f x s) = block_tracker s"
  shows "block_tracker (fold f xs s) = block_tracker s"
  by (induction xs arbitrary: s) (simp_all add: assms)

lemma process_tx_cursor:
  "block_tracker (process_tx c trackedAddrs block tx db) = block_tracker db"
  by (simp add: process_tx_def Let_def fold_cursor process_input_cursor process_output_cursor
      split: option.splits)

lemma connect_writes_cursor:
  "block_tracker (process_event c db (Connect block)) = Some (Height block, Hash block)"
proof -
  have "block_tracker (update_confirmations h info s) = block_tracker s" for h info s
    by (simp add: update_confirmations_def)
  then show ?thesis
    by (simp add: process_event_def ProcessBlockTransactions_def Let_def fold_cursor
        process_tx_cursor update_balance_frame UpdateLastProcessedBlock_def)
qed

subsection \<open>Decoding an AuxPoW block\<close>

text \<open>
  C5. When the data holds the 80 bytes of a header whose version is at least
  \<open>0x20000000\<close>, the transaction count after it is a varint (read in \<open>n > 0\<close>
  bytes of the data) with a positive value, and the bytes after the count decode as a
  transaction, \<open>DecodeBlock\<close> succeeds with that header and exactly that transaction.
  It returns as soon as the one transaction is decoded: no offset is moved past it and
  nothing after it is decoded.
\<close>

theorem DecodeBlock_auxpow_coinbase:
  assumes "80 \<le> length data" and "0x20000000 \<le> le32 data 0"
    and "decodeVarInt (drop 80 data) = (txCount, n)"
    and "0 < txCount" and "0 < n" and "n \<le> int (length data) - 80"
    and "decodeTransaction (drop (80 + nat n) data) = Inr tx"
  shows "DecodeBlock decodeVarInt decodeTransaction serializeSize data =
     Inr \<lparr>b_Header = \<lparr>bh_Version = le32 data 0, bh_PrevBlock = take 32 (drop 4 data),
                       bh_MerkleRoot = take 32 (drop 36 data), bh_Timestamp = le32 data 68,
                       bh_Bits = le32 data 72, bh_Nonce = le32 data 76\<rparr>,
          b_Tx = [tx]\<rparr>"
proof -
  have "nat (80 + n) = 80 + nat n" using assms(5) by simp
  with assms show ?thesis
    by (simp add: DecodeBlock_def Let_def)
qed

theorem DecodeBlock_auxpow_coinbase_witness:
  "DecodeBlock DecodeVarInt example_decodeTransaction (\<lambda>tx. 1) example_auxpow_block =
     Inr \<lparr>b_Header = \<lparr>bh_Version = 0x20000000, bh_PrevBlock = replicate 32 0,
                       bh_MerkleRoot = replicate 32 0, bh_Timestamp = 0,
                       bh_Bits = 0, bh_Nonce = 0\<rparr>,
          b_Tx = [0xAA]\<rparr>"
  using DecodeBlock_auxpow_coinbase [of example_auxpow_block DecodeVarInt 1 1
      example_decodeTransaction "0xAA" "\<lambda>tx. 1"]
  by (simp add: le32_def example_auxpow_block_def DecodeVarInt_def example_decodeTransaction_def
      nth_append)

subsection \<open>The address of a pay-to-public-key-hash script\<close>

lemma ExtractAddresses_p2pkh:
  assumes "length hash = 20"
  shows "ExtractAddresses sum256 encode58 (p2pkh_script hash) =
     [encode58 (0x1E # 0x1E # hash @ take 4 (sum256 (sum256 (0x1E # hash)))
               @ take 4 (sum256 (sum256 (0x1E # 0x1E # hash @ take 4 (sum256 (sum256 (0x1E # hash)))))))]"
  using assms
  by (simp add: ExtractAddresses_def p2pkh_script_def Base58CheckEncode_def checksum_def Let_def
      nth_append)

text \<open>
  With an encoder that is injective, as base-58 is, the address returned for a
  20-byte hash is never its Base58Check form: the encoded bytes are longer.
\<close>

lemma ExtractAddresses_p2pkh_not_base58check:
  assumes "inj encode58" and "length hash = 20"
  shows "ExtractAddresses sum256 encode58 (p2pkh_script hash) \<noteq> [base58check sum256 encode58 0x1E hash]"
proof
  assume "ExtractAddresses sum256 encode58 (p2pkh_script hash) = [base58check sum256 encode58 0x1E hash]"
  then have "encode58 (0x1E # 0x1E # hash @ take 4 (sum256 (sum256 (0x1E # hash)))
               @ take 4 (sum256 (sum256 (0x1E # 0x1E # hash @ take 4 (sum256 (sum256 (0x1E # hash)))))))
             = encode58 (0x1E # hash @ take 4 (sum256 (sum256 (0x1E # hash))))"
    by (simp add: ExtractAddresses_p2pkh [OF assms(2)] base58check_def)
  from injD [OF assms(1) this]
  have "length (0x1E # 0x1E # hash @ take 4 (sum256 (sum256 (0x1E # hash)))
               @ take 4 (sum256 (sum256 (0x1E # 0x1E # hash @ take 4 (sum256 (sum256 (0x1E # hash)))))))
        = length (0x1E # hash @ take 4 (sum256 (sum256 (0x1E # hash))))"
    by simp
  then show False by simp
qed

text \<open>
  C6. For the script of the all-zero hash, \<open>ExtractAddresses\<close> returns one address,
  and it is the encoding of 22 bytes and two checksums: the version byte \<open>0x1E\<close>
  twice, the hash, the checksum of version and hash, and a second checksum over all
  of that. The caller has put the version and the checksum on, and
  \<open>Base58CheckEncode\<close> puts them on again. The bytes encoded are not those of the
  Base58Check form, version, hash and one checksum.
\<close>

theorem ExtractAddresses_p2pkh_wraps_twice:
  "ExtractAddresses sum256 encode58 (p2pkh_script (replicate 20 0)) =
     [encode58 (0x1E # 0x1E # replicate 20 0 @ take 4 (sum256 (sum256 (0x1E # replicate 20 0)))
        @ take 4 (sum256 (sum256 (0x1E # 0x1E # replicate 20 0
                               @ take 4 (sum256 (sum256 (0x1E # replicate 20 0)))))))]
   \<and> base58check sum256 encode58 0x1E (replicate 20 0) =
       encode58 (0x1E # replicate 20 0 @ take 4 (sum256 (sum256 (0x1E # replicate 20 0))))
   \<and> 0x1E # 0x1E # replicate 20 0 @ take 4 (sum256 (sum256 (0x1E # replicate 20 0)))
        @ take 4 (sum256 (sum256 (0x1E # 0x1E # replicate 20 0
                               @ take 4 (sum256 (sum256 (0x1E # replicate 20 0))))))
       \<noteq> 0x1E # replicate 20 (0::byte) @ take 4 (sum256 (sum256 (0x1E # replicate 20 0)))"
  by (simp add: ExtractAddresses_p2pkh base58check_def)

subsection \<open>A full batch of headers\<close>

lemma process_headers_keeps:
  "process_headers env payload k offset n = (err, n') \<Longrightarrow>
     headerSyncComplete n' = headerSyncComplete n \<and> sent n' = sent n"
proof (induction k arbitrary: offset n)
  case 0
  then show ?case by simp
next
  case (Suc k)
  then show ?case
    by (auto simp: Let_def split: if_splits option.splits)
qed

text \<open>
  C7. A \<open>headers\<close> message that announces 2000 headers and is handled without an
  error does not make the session ask for more: no \<open>getheaders\<close> is sent, and the
  header synchronisation is marked complete. The count is compared with
  \<open>MaxHeadersResults\<close>, which is 1000.
\<close>

theorem full_batch_of_2000_ends_sync:
  assumes "ReadVarInt payload = Inr 2000"
    and "handleHeadersMessage env n payload = (None, n')"
  shows "headerSyncComplete n' \<and> sent n' = sent n"
proof -
  obtain err m where loop: "process_headers env payload 2000 1 n = (err, m)"
    by (cases "process_headers env payload 2000 1 n")
  from process_headers_keeps [OF loop] assms loop show ?thesis
    by (auto simp: handleHeadersMessage_def MaxHeadersResults_def split: option.splits)
qed

text \<open>A message of 1000 headers is the one that is followed by a request.\<close>

lemma batch_of_1000_requests_more:
  assumes "ReadVarInt payload = Inr 1000"
    and "handleHeadersMessage env n payload = (None, n')"
  shows "headerSyncComplete n' = headerSyncComplete n \<and> length (sent n') = Suc (length (sent n))"
proof -
  obtain err m where loop: "process_headers env payload 1000 1 n = (err, m)"
    by (cases "process_headers env payload 1000 1 n")
  from process_headers_keeps [OF loop] assms loop show ?thesis
    by (auto simp: handleHeadersMessage_def MaxHeadersResults_def Let_def
        split: option.splits if_splits)
qed

lemma ReadVarInt_example: "ReadVarInt example_headers_2000 = Inr 2000"
  by (simp add: ReadVarInt_def example_headers_2000_def le_nat_def)

lemma SetBytes_zeros: "SetBytes (replicate k 0) = 0"
  by (induction k) (simp_all add: SetBytes_def replicate_app_Cons_same)

lemma valid_ones: "validateHeader example_spv_env n (parse_header (replicate 80 1)) = None"
  by (simp add: validateHeader_def parse_header_def example_spv_env_def le32_def GetHash_def
      CompactToBig_def SetBytes_zeros)

lemma valid_first:
  "validateHeader example_spv_env n (parse_header (0xd0 # 0x07 # replicate 78 1)) = None"
  by (simp add: validateHeader_def parse_header_def example_spv_env_def le32_def GetHash_def
      CompactToBig_def SetBytes_zeros nth_append)

lemma length_example: "length example_headers_2000 = 160003"
  by (simp add: example_headers_2000_def)

lemma window_ones:
  assumes "3 \<le> off" and "off + 80 \<le> 160003"
  shows "take 80 (drop off example_headers_2000) = replicate 80 1"
proof -
  have off: "off = Suc (Suc (Suc (off - 3)))"
    using assms(1) by simp
  have "drop (Suc (Suc (Suc (off - 3)))) example_headers_2000 = replicate (160000 - (off - 3)) 1"
    by (simp add: example_headers_2000_def)
  with off have "drop off example_headers_2000 = replicate (160000 - (off - 3)) 1"
    by simp
  moreover have "min 80 (160000 - (off - 3)) = (80::nat)"
    using assms by simp
  ultimately show ?thesis by simp
qed

lemma process_headers_ones:
  assumes "3 \<le> off" and "off + 80 * k \<le> 160003"
  shows "fst (process_headers example_spv_env example_headers_2000 k off n) = None"
  using assms
proof (induction k arbitrary: off n)
  case 0
  then show ?case by simp
next
  case (Suc k)
  have w: "take 80 (drop off example_headers_2000) = replicate 80 1"
    using Suc.prems by (intro window_ones) simp_all
  have st: "db_StoreBlock example_spv_env h" for h
    by (simp add: example_spv_env_def)
  have "3 \<le> off + 80" "off + 80 + 80 * k \<le> 160003"
    using Suc.prems by simp_all
  from Suc.IH [OF this] Suc.prems(2) show ?case
    by (simp add: length_example w valid_ones st Let_def)
qed

lemma process_headers_example:
  assumes "81 + 80 * k \<le> 160003"
  shows "fst (process_headers example_spv_env example_headers_2000 (Suc k) 1 n) = None"
proof -
  have st: "db_StoreBlock example_spv_env h" for h
    by (simp add: example_spv_env_def)
  have w: "take 80 (drop 1 example_headers_2000) = 0xd0 # 0x07 # replicate 78 1"
    by (simp add: example_headers_2000_def)
  have "fst (process_headers example_spv_env example_headers_2000 k 81 m) = None" for m
    using assms by (intro process_headers_ones) simp_all
  then show ?thesis
    by (simp add: length_example w valid_first st Let_def del: One_nat_def)
qed

lemma handleHeadersMessage_example:
  "fst (handleHeadersMessage example_spv_env example_node example_headers_2000) = None"
proof -
  have "fst (process_headers example_spv_env example_headers_2000 (Suc 1999) 1 example_node) = None"
    by (rule process_headers_example) simp
  then have "fst (process_headers example_spv_env example_headers_2000 2000 1 example_node) = None"
    by simp
  then show ?thesis
    by (cases "process_headers example_spv_env example_headers_2000 2000 1 example_node")
       (auto simp: handleHeadersMessage_def ReadVarInt_example MaxHeadersResults_def)
qed

theorem full_batch_of_2000_ends_sync_witness:
  "ReadVarInt example_headers_2000 = Inr 2000
   \<and> fst (handleHeadersMessage example_spv_env example_node example_headers_2000) = None
   \<and> headerSyncComplete (snd (handleHeadersMessage example_spv_env example_node example_headers_2000))
   \<and> sent (snd (handleHeadersMessage example_spv_env example_node example_headers_2000)) = []"
  using full_batch_of_2000_ends_sync [OF ReadVarInt_example, of example_spv_env example_node
      "snd (handleHeadersMessage example_spv_env example_node example_headers_2000)"]
    handleHeadersMessage_example ReadVarInt_example
  by (simp add: prod_eq_iff example_node_def)

end
